theory Spec2Isabelle
  imports Complex_Main "HOL-Library.Sublist" "HOL-Library.Char_ord" "HOL-Library.List_Lexorder"
    "HOL-Library.Monad_Syntax"
begin

section \<open>JavaScript values\<close>

text \<open>
  A JavaScript string is a list of code units. \<open>char\<close> has eight bits, so the strings
  of this development are those whose code units are below 256; the accented letters of
  the Spanish texts are written by their code (\<open>0xF3\<close> is the o with acute accent).
  A value that may be \<open>null\<close> or \<open>undefined\<close>, where the code does not tell the two
  apart, is an \<open>option\<close>; the fields that the schema declares
  \<open>.optional().nullable()\<close> keep the three cases.
\<close>

datatype 'a optional = Undefined | Null | Value 'a

definition truthy_str :: "string option \<Rightarrow> bool" where
  "truthy_str v = (case v of None \<Rightarrow> False | Some s \<Rightarrow> s \<noteq> [])"

definition falsy :: "string optional \<Rightarrow> bool" where
  "falsy v = (case v of Undefined \<Rightarrow> True | Null \<Rightarrow> True | Value s \<Rightarrow> s = [])"

text \<open>\<open>String.prototype.trim\<close>: white space and line terminators, as far as \<open>char\<close> reaches.\<close>

definition is_js_whitespace :: "char \<Rightarrow> bool" where
  "is_js_whitespace c =
     (c = CHR 0x09 \<or> c = CHR 0x0A \<or> c = CHR 0x0B \<or> c = CHR 0x0C \<or> c = CHR 0x0D
      \<or> c = CHR 0x20 \<or> c = CHR 0xA0)"

definition js_trim :: "string \<Rightarrow> string" where
  "js_trim s = rev (dropWhile is_js_whitespace (rev (dropWhile is_js_whitespace s)))"

definition is_digit :: "char \<Rightarrow> bool" where
  "is_digit c = (c \<in> set ''0123456789'')"

text \<open>\<open>s.split(sep)\<close> for a separator of one character.\<close>

fun js_split :: "char \<Rightarrow> string \<Rightarrow> string list" where
  "js_split sep [] = [[]]"
| "js_split sep (c # cs) =
     (if c = sep then [] # js_split sep cs
      else (case js_split sep cs of [] \<Rightarrow> [[c]] | p # ps \<Rightarrow> (c # p) # ps))"

text \<open>\<open>s.replace(pat, rep)\<close> for a string pattern: the first occurrence only.\<close>

fun js_replace :: "string \<Rightarrow> string \<Rightarrow> string \<Rightarrow> string" where
  "js_replace pat rep [] = (if pat = [] then rep else [])"
| "js_replace pat rep (c # cs) =
     (if prefix pat (c # cs) then rep @ drop (length pat) (c # cs)
      else c # js_replace pat rep cs)"

section \<open>Receipts page: the record handed to the PDF generator\<close>

text \<open>
  \<^verbatim>\<open>src/pages/invoicing/RecibosPage.tsx\<close>. The types \<open>Client\<close> and
  \<open>ReciboPagoFormValues\<close> are declared in \<^verbatim>\<open>lib/types/invoicing\<close>; the records below
  list the fields that the page sets and \<open>onSubmit\<close> reads. The amount is passed through unchanged, so its type is
  a parameter. A JavaScript value that may be \<open>null\<close> is an \<open>option\<close>; a string is falsy
  when it is empty.
\<close>

record Client =
  client_id :: "string option"
  razon_social :: string
  numero_documento :: string

record 'n ReciboPagoFormValues =
  recibo_dni :: string
  client_name :: string
  recibo_client_id :: "string option"
  fecha_emision :: string
  monto :: 'n
  concepto :: string
  metodo_pago :: string
  numero_operacion :: string
  is_payment_observed :: bool
  payment_observation_detail :: string

record 'n receiptData =
  rd_correlative :: string
  rd_client_full_name :: string
  rd_client_dni :: string
  rd_fecha_emision :: string
  rd_monto :: 'n
  rd_concepto :: string
  rd_metodo_pago :: string
  rd_numero_operacion :: string

text \<open>
  The first step of \<open>onSubmit\<close>: the early return when the client or the correlative is
  missing (\<open>None\<close>, nothing reaches the generator), otherwise the object literal
  \<open>receiptData\<close> that is passed to \<open>generateReceiptPdf\<close>.
\<close>

definition onSubmit_receiptData ::
  "string \<Rightarrow> Client option \<Rightarrow> 'n ReciboPagoFormValues \<Rightarrow> 'n receiptData option" where
  "onSubmit_receiptData correlative clientData values =
     (case clientData of
        None \<Rightarrow> None
      | Some c \<Rightarrow>
          if \<not> truthy_str (client_id c) \<or> correlative = [] then None
          else Some \<lparr> rd_correlative = correlative,
                      rd_client_full_name = razon_social c,
                      rd_client_dni = numero_documento c,
                      rd_fecha_emision = fecha_emision values,
                      rd_monto = monto values,
                      rd_concepto = concepto values,
                      rd_metodo_pago = metodo_pago values,
                      rd_numero_operacion = numero_operacion values \<rparr>)"

definition example_client :: Client where
  "example_client =
     \<lparr> client_id = Some ''a1'', razon_social = ''Ana Rojas'', numero_documento = ''12345678'' \<rparr>"

definition example_recibo :: "nat ReciboPagoFormValues" where
  "example_recibo =
     \<lparr> recibo_dni = ''12345678'', client_name = ''Ana Rojas'',
       recibo_client_id = Some ''a1'', fecha_emision = ''2025-01-15'', monto = 250, concepto = ''Cuota'', metodo_pago = ''Efectivo'', numero_operacion = '''',
       is_payment_observed = False, payment_observation_detail = '''' \<rparr>"

definition other_recibo :: "nat ReciboPagoFormValues" where
  "other_recibo =
     \<lparr> recibo_dni = ''00000000'', client_name = ''Otro Nombre'',
       recibo_client_id = None, fecha_emision = ''2025-01-15'', monto = 250,
       concepto = ''Cuota'', metodo_pago = ''Efectivo'', numero_operacion = [],
       is_payment_observed = True, payment_observation_detail = ''pago parcial'' \<rparr>"

section \<open>Registration form: the validation schema\<close>

text \<open>
  \<^verbatim>\<open>src/components/custom/SocioTitularRegistrationForm.tsx\<close>, \<open>personalDataSchema\<close>,
  \<open>addressDataSchema\<close> and \<open>formSchema\<close>, with the parsing rules of the schema library.
  The schema is handed the values of the form as they are, an object whose properties may
  hold any value; a property that is missing reads as \<open>undefined\<close>. A number is a real
  number, an infinity or \<open>NaN\<close>. A value that is neither primitive nor \<open>null\<close> carries the
  name the library gives to its type (\<open>object\<close>, \<open>array\<close>, \<open>date\<close>, ...).
\<close>

datatype jsnum = NaN | PosInfinity | NegInfinity | Finite real

datatype jsval = JUndefined | JNull | JBool bool | JNum jsnum | JStr string | JOther string

type_synonym js_object = "string \<Rightarrow> jsval"

datatype situacionEconomica_enum = Pobre | Extremo_Pobre

text \<open>
  The values that the schema yields: \<open>z.infer\<close> of \<open>personalDataSchema\<close>, and of the
  intersection \<open>formSchema\<close>, which adds the six fields of the address.
\<close>

record personalData =
  dni :: string
  nombres :: string
  apellidoPaterno :: string
  apellidoMaterno :: string
  fechaNacimiento :: string
  edad :: "jsnum optional"
  celular :: "string optional"
  situacionEconomica :: situacionEconomica_enum
  direccionDNI :: string
  regionDNI :: string
  provinciaDNI :: string
  distritoDNI :: string
  localidad :: string
  isObservado :: bool
  observacion :: "string optional"
  isPaymentObserved :: bool
  paymentObservationDetail :: "string optional"

record SocioTitularFormValues = personalData +
  regionVivienda :: "string optional"
  provinciaVivienda :: "string optional"
  distritoVivienda :: "string optional"
  direccionVivienda :: "string optional"
  mz :: "string optional"
  lote :: "string optional"

type_synonym addressData =
  "\<lparr> regionVivienda :: string optional, provinciaVivienda :: string optional,
     distritoVivienda :: string optional, direccionVivienda :: string optional,
     mz :: string optional, lote :: string optional \<rparr>"

text \<open>
  The object written to \<open>socio_titulares\<close> by the submit handler: the form values without
  the two camel-case payment fields (\<open>restOfData\<close>), and the two columns that replace them.
  The columns carry the prefix \<open>col_\<close>.
\<close>

record restOfData =
  col_dni :: string
  col_nombres :: string
  col_apellidoPaterno :: string
  col_apellidoMaterno :: string
  col_fechaNacimiento :: string
  col_edad :: "jsnum optional"
  col_celular :: "string optional"
  col_situacionEconomica :: situacionEconomica_enum
  col_direccionDNI :: string
  col_regionDNI :: string
  col_provinciaDNI :: string
  col_distritoDNI :: string
  col_localidad :: string
  col_isObservado :: bool
  col_observacion :: "string optional"
  col_regionVivienda :: "string optional"
  col_provinciaVivienda :: "string optional"
  col_distritoVivienda :: "string optional"
  col_direccionVivienda :: "string optional"
  col_mz :: "string optional"
  col_lote :: "string optional"

record dataToSave = restOfData +
  col_is_payment_observed :: bool
  col_payment_observation_detail :: "string optional"

definition dataToSave_of :: "SocioTitularFormValues \<Rightarrow> dataToSave" where
  "dataToSave_of d =
     \<lparr> col_dni = dni d, col_nombres = nombres d, col_apellidoPaterno = apellidoPaterno d,
       col_apellidoMaterno = apellidoMaterno d, col_fechaNacimiento = fechaNacimiento d,
       col_edad = edad d, col_celular = celular d,
       col_situacionEconomica = situacionEconomica d, col_direccionDNI = direccionDNI d,
       col_regionDNI = regionDNI d, col_provinciaDNI = provinciaDNI d,
       col_distritoDNI = distritoDNI d, col_localidad = localidad d,
       col_isObservado = isObservado d,
       col_observacion = (if isObservado d then observacion d else Null),
       col_regionVivienda = regionVivienda d, col_provinciaVivienda = provinciaVivienda d,
       col_distritoVivienda = distritoVivienda d,
       col_direccionVivienda = direccionVivienda d, col_mz = mz d, col_lote = lote d,
       col_is_payment_observed = isPaymentObserved d,
       col_payment_observation_detail =
         (if isPaymentObserved d then paymentObservationDetail d else Null) \<rparr>"

text \<open>
  An issue carries its code, the field it is on and its message. The result of a parse is
  the list of the issues it adds and the value it yields; the value is \<open>None\<close> when the
  parse is aborted (the library's \<open>INVALID\<close>). Validation succeeds when the list of issues
  is empty.
\<close>

datatype issue_code =
  invalid_type | invalid_enum_value | too_small | too_big | invalid_string | custom

datatype issue = Issue (code: issue_code) (path: string) (message: string)

type_synonym 'a parsed = "issue list \<times> 'a option"

text \<open>
  The check of a type fails with an issue \<open>invalid_type\<close> and aborts the parse of the
  field. Its message is that of the library's default error map.
\<close>

definition getParsedType :: "jsval \<Rightarrow> string" where
  "getParsedType v =
     (case v of
        JUndefined \<Rightarrow> ''undefined''
      | JNull \<Rightarrow> ''null''
      | JBool b \<Rightarrow> ''boolean''
      | JNum n \<Rightarrow> if n = NaN then ''nan'' else ''number''
      | JStr s \<Rightarrow> ''string''
      | JOther t \<Rightarrow> t)"

definition invalid_type_issue :: "string \<Rightarrow> string \<Rightarrow> jsval \<Rightarrow> issue" where
  "invalid_type_issue expected p v =
     Issue invalid_type p
       (if v = JUndefined then ''Required''
        else ''Expected '' @ expected @ '', received '' @ getParsedType v)"

text \<open>
  \<open>z.string()\<close> with its checks: a value that is not a string aborts; on a string every
  check runs and adds its issue, and the string is the value.
\<close>

definition z_string :: "string \<Rightarrow> (string \<Rightarrow> issue list) \<Rightarrow> jsval \<Rightarrow> string parsed" where
  "z_string p checks v =
     (case v of
        JStr s \<Rightarrow> (checks s, Some s)
      | _ \<Rightarrow> ([invalid_type_issue ''string'' p v], None))"

text \<open>\<open>.optional().nullable()\<close>: \<open>null\<close> and \<open>undefined\<close> are accepted as they are.\<close>

definition optional_nullable :: "(jsval \<Rightarrow> 'a parsed) \<Rightarrow> jsval \<Rightarrow> 'a optional parsed" where
  "optional_nullable schema v =
     (case v of
        JNull \<Rightarrow> ([], Some Null)
      | JUndefined \<Rightarrow> ([], Some Undefined)
      | _ \<Rightarrow> (fst (schema v), map_option Value (snd (schema v))))"

text \<open>\<open>z.boolean().default(false)\<close>: \<open>undefined\<close> is replaced by the default.\<close>

definition boolean_default :: "string \<Rightarrow> bool \<Rightarrow> jsval \<Rightarrow> bool parsed" where
  "boolean_default p dflt v =
     (case v of
        JUndefined \<Rightarrow> ([], Some dflt)
      | JBool b \<Rightarrow> ([], Some b)
      | _ \<Rightarrow> ([invalid_type_issue ''boolean'' p v], None))"

definition min_check :: "nat \<Rightarrow> string \<Rightarrow> string \<Rightarrow> string \<Rightarrow> issue list" where
  "min_check n msg p s = (if length s < n then [Issue too_small p msg] else [])"

definition max_check :: "nat \<Rightarrow> string \<Rightarrow> string \<Rightarrow> string \<Rightarrow> issue list" where
  "max_check n msg p s = (if n < length s then [Issue too_big p msg] else [])"

text \<open>\<open>z.string().min(1, ...).max(255, ...)\<close>, the shape of the required text fields.\<close>

definition required_text :: "string \<Rightarrow> string \<Rightarrow> string \<Rightarrow> jsval \<Rightarrow> string parsed" where
  "required_text p msg_min msg_max =
     z_string p (\<lambda>s. min_check 1 msg_min p s @ max_check 255 msg_max p s)"

text \<open>\<open>z.string().max(n, ...).optional().nullable()\<close>, and the same without a check.\<close>

definition optional_max :: "nat \<Rightarrow> string \<Rightarrow> string \<Rightarrow> jsval \<Rightarrow> string optional parsed" where
  "optional_max n msg p = optional_nullable (z_string p (max_check n msg p))"

definition optional_string :: "string \<Rightarrow> jsval \<Rightarrow> string optional parsed" where
  "optional_string p = optional_nullable (z_string p (\<lambda>s. []))"

definition msg_dni_largo :: string where
  "msg_dni_largo = ''El DNI debe tener 8 d'' @ [CHR 0xED] @ ''gitos.''"

definition msg_dni_numerico :: string where
  "msg_dni_numerico =
     ''El DNI debe ser 8 d'' @ [CHR 0xED] @ ''gitos num'' @ [CHR 0xE9] @ ''ricos.''"

text \<open>The regular expressions \<open>/^\d{8}$/\<close> and \<open>/^\d+$/\<close>.\<close>

definition eight_digits :: "string \<Rightarrow> bool" where
  "eight_digits s = (length s = 8 \<and> list_all is_digit s)"

definition only_digits :: "string \<Rightarrow> bool" where
  "only_digits s = (s \<noteq> [] \<and> list_all is_digit s)"

definition dni_schema :: "jsval \<Rightarrow> string parsed" where
  "dni_schema =
     z_string ''dni''
       (\<lambda>s. min_check 8 msg_dni_largo ''dni'' s @ max_check 8 msg_dni_largo ''dni'' s
            @ (if eight_digits s then [] else [Issue invalid_string ''dni'' msg_dni_numerico]))"

definition fechaNacimiento_schema :: "jsval \<Rightarrow> string parsed" where
  "fechaNacimiento_schema =
     z_string ''fechaNacimiento''
       (min_check 1 ''La fecha de nacimiento es requerida.'' ''fechaNacimiento'')"

text \<open>
  \<open>z.number().int().min(0, ...).optional().nullable()\<close>. \<open>NaN\<close> fails the check of the
  type; a number that is not an integer gets the issue of \<open>int\<close>, which does not abort.
\<close>

definition is_integer :: "jsnum \<Rightarrow> bool" where
  "is_integer n = (case n of Finite r \<Rightarrow> r \<in> \<int> | _ \<Rightarrow> False)"

definition below_zero :: "jsnum \<Rightarrow> bool" where
  "below_zero n = (case n of Finite r \<Rightarrow> r < 0 | NegInfinity \<Rightarrow> True | _ \<Rightarrow> False)"

definition z_number_int_min0 :: "string \<Rightarrow> string \<Rightarrow> jsval \<Rightarrow> jsnum parsed" where
  "z_number_int_min0 p msg v =
     (case v of
        JNum n \<Rightarrow>
          if n = NaN then ([invalid_type_issue ''number'' p v], None)
          else ((if is_integer n then []
                 else [Issue invalid_type p ''Expected integer, received float''])
                @ (if below_zero n then [Issue too_small p msg] else []),
                Some n)
      | _ \<Rightarrow> ([invalid_type_issue ''number'' p v], None))"

definition edad_schema :: "jsval \<Rightarrow> jsnum optional parsed" where
  "edad_schema =
     optional_nullable (z_number_int_min0 ''edad'' ''La edad no puede ser negativa.'')"

definition msg_celular_numeros :: string where
  "msg_celular_numeros =
     ''El celular debe contener solo n'' @ [CHR 0xFA] @ ''meros si est'' @ [CHR 0xE1]
     @ '' presente.''"

text \<open>
  The refinement of \<open>celular\<close>, which runs on the value of the inner schema unless that
  parse is aborted.
\<close>

definition celular_refine :: "string optional \<Rightarrow> bool" where
  "celular_refine val = (case val of Value s \<Rightarrow> s = [] \<or> only_digits s | _ \<Rightarrow> True)"

definition celular_schema :: "jsval \<Rightarrow> string optional parsed" where
  "celular_schema v =
     (case optional_max 15 ''El celular es demasiado largo.'' ''celular'' v of
        (found, None) \<Rightarrow> (found, None)
      | (found, Some val) \<Rightarrow>
          (found @ (if celular_refine val then []
                    else [Issue custom ''celular'' msg_celular_numeros]),
           Some val))"

text \<open>
  \<open>z.enum(['Pobre', 'Extremo Pobre'], { message: ... })\<close>: a value that is not a string, and
  a string that is not one of the two, abort, with the message given to the schema.
\<close>

definition msg_situacion_requerida :: string where
  "msg_situacion_requerida =
     ''La situaci'' @ [CHR 0xF3] @ ''n econ'' @ [CHR 0xF3] @ ''mica es requerida.''"

definition situacionEconomica_schema :: "jsval \<Rightarrow> situacionEconomica_enum parsed" where
  "situacionEconomica_schema v =
     (case v of
        JStr s \<Rightarrow>
          if s = ''Pobre'' then ([], Some Pobre)
          else if s = ''Extremo Pobre'' then ([], Some Extremo_Pobre)
          else ([Issue invalid_enum_value ''situacionEconomica'' msg_situacion_requerida],
                None)
      | _ \<Rightarrow> ([Issue invalid_type ''situacionEconomica'' msg_situacion_requerida], None))"

definition msg_observacion_larga :: string where
  "msg_observacion_larga = ''La observaci'' @ [CHR 0xF3] @ ''n es demasiado larga.''"

definition msg_detalle_largo :: string where
  "msg_detalle_largo =
     ''El detalle de la observaci'' @ [CHR 0xF3] @ ''n de pago es demasiado largo.''"

definition msg_observacion_requerida :: string where
  \<open>msg_observacion_requerida =
     ''La observaci'' @ [CHR 0xF3] @ ''n administrativa es requerida si el socio est''
     @ [CHR 0xE1] @ '' marcado como "Observado".''\<close>

definition msg_detalle_requerido :: string where
  \<open>msg_detalle_requerido =
     ''El detalle de la observaci'' @ [CHR 0xF3] @ ''n de pago es requerido si el pago est''
     @ [CHR 0xE1] @ '' marcado como "Observado".''\<close>

text \<open>
  The test of the refinement on a detail: \<open>!v || v.trim() === ''\<close>. The second operand is
  reached only for a string that is not empty.
\<close>

definition detail_missing :: "string optional \<Rightarrow> bool" where
  "detail_missing v = (falsy v \<or> (case v of Value s \<Rightarrow> js_trim s = [] | _ \<Rightarrow> False))"

definition superRefine :: "'a personalData_scheme \<Rightarrow> issue list" where
  "superRefine data =
     (if isObservado data \<and> detail_missing (observacion data)
      then [Issue custom ''observacion'' msg_observacion_requerida] else [])
     @ (if isPaymentObserved data \<and> detail_missing (paymentObservationDetail data)
        then [Issue custom ''paymentObservationDetail'' msg_detalle_requerido] else [])"

text \<open>
  \<open>z.object({...})\<close>: every field is parsed, in the order of the shape, and its issues are
  kept; the object is aborted when one of its fields is. Properties that the shape does
  not name are dropped.
\<close>

definition personalData_object :: "js_object \<Rightarrow> personalData parsed" where
  "personalData_object input =
     (let r_dni = dni_schema (input ''dni'');
          r_nombres = required_text ''nombres'' ''Los nombres son requeridos.''
            ''Los nombres son demasiado largos.'' (input ''nombres'');
          r_apellidoPaterno = required_text ''apellidoPaterno''
            ''El apellido paterno es requerido.''
            ''El apellido paterno es demasiado largo.'' (input ''apellidoPaterno'');
          r_apellidoMaterno = required_text ''apellidoMaterno''
            ''El apellido materno es requerido.''
            ''El apellido materno es demasiado largo.'' (input ''apellidoMaterno'');
          r_fechaNacimiento = fechaNacimiento_schema (input ''fechaNacimiento'');
          r_edad = edad_schema (input ''edad'');
          r_celular = celular_schema (input ''celular'');
          r_situacionEconomica = situacionEconomica_schema (input ''situacionEconomica'');
          r_direccionDNI = required_text ''direccionDNI''
            (''La direcci'' @ [CHR 0xF3] @ ''n DNI es requerida.'')
            (''La direcci'' @ [CHR 0xF3] @ ''n DNI es demasiado larga.'')
            (input ''direccionDNI'');
          r_regionDNI = required_text ''regionDNI''
            (''La regi'' @ [CHR 0xF3] @ ''n DNI es requerida.'')
            (''La regi'' @ [CHR 0xF3] @ ''n DNI es demasiado larga.'') (input ''regionDNI'');
          r_provinciaDNI = required_text ''provinciaDNI'' ''La provincia DNI es requerida.''
            ''La provincia DNI es demasiado larga.'' (input ''provinciaDNI'');
          r_distritoDNI = required_text ''distritoDNI'' ''El distrito DNI es requerido.''
            ''El distrito DNI es demasiado larga.'' (input ''distritoDNI'');
          r_localidad = required_text ''localidad'' ''La localidad es requerida.''
            ''La localidad es demasiado larga.'' (input ''localidad'');
          r_isObservado = boolean_default ''isObservado'' False (input ''isObservado'');
          r_observacion = optional_max 1000 msg_observacion_larga ''observacion''
            (input ''observacion'');
          r_isPaymentObserved =
            boolean_default ''isPaymentObserved'' False (input ''isPaymentObserved'');
          r_paymentObservationDetail =
            optional_max 1000 msg_detalle_largo ''paymentObservationDetail''
              (input ''paymentObservationDetail'')
      in (fst r_dni @ fst r_nombres @ fst r_apellidoPaterno @ fst r_apellidoMaterno
          @ fst r_fechaNacimiento @ fst r_edad @ fst r_celular @ fst r_situacionEconomica
          @ fst r_direccionDNI @ fst r_regionDNI @ fst r_provinciaDNI @ fst r_distritoDNI
          @ fst r_localidad @ fst r_isObservado @ fst r_observacion
          @ fst r_isPaymentObserved @ fst r_paymentObservationDetail,
          do {
            v_dni \<leftarrow> snd r_dni;
            v_nombres \<leftarrow> snd r_nombres;
            v_apellidoPaterno \<leftarrow> snd r_apellidoPaterno;
            v_apellidoMaterno \<leftarrow> snd r_apellidoMaterno;
            v_fechaNacimiento \<leftarrow> snd r_fechaNacimiento;
            v_edad \<leftarrow> snd r_edad;
            v_celular \<leftarrow> snd r_celular;
            v_situacionEconomica \<leftarrow> snd r_situacionEconomica;
            v_direccionDNI \<leftarrow> snd r_direccionDNI;
            v_regionDNI \<leftarrow> snd r_regionDNI;
            v_provinciaDNI \<leftarrow> snd r_provinciaDNI;
            v_distritoDNI \<leftarrow> snd r_distritoDNI;
            v_localidad \<leftarrow> snd r_localidad;
            v_isObservado \<leftarrow> snd r_isObservado;
            v_observacion \<leftarrow> snd r_observacion;
            v_isPaymentObserved \<leftarrow> snd r_isPaymentObserved;
            v_paymentObservationDetail \<leftarrow> snd r_paymentObservationDetail;
            Some \<lparr> dni = v_dni, nombres = v_nombres, apellidoPaterno = v_apellidoPaterno,
                   apellidoMaterno = v_apellidoMaterno, fechaNacimiento = v_fechaNacimiento,
                   edad = v_edad, celular = v_celular,
                   situacionEconomica = v_situacionEconomica,
                   direccionDNI = v_direccionDNI, regionDNI = v_regionDNI,
                   provinciaDNI = v_provinciaDNI, distritoDNI = v_distritoDNI,
                   localidad = v_localidad, isObservado = v_isObservado,
                   observacion = v_observacion, isPaymentObserved = v_isPaymentObserved,
                   paymentObservationDetail = v_paymentObservationDetail \<rparr>
          }))"

text \<open>
  \<open>.superRefine(...)\<close>: the refinement runs on the value of the object, after the checks of
  the fields, and does not run when the object is aborted.
\<close>

definition personalDataSchema :: "js_object \<Rightarrow> personalData parsed" where
  "personalDataSchema input =
     (case personalData_object input of
        (found, None) \<Rightarrow> (found, None)
      | (found, Some data) \<Rightarrow> (found @ superRefine data, Some data))"

definition addressDataSchema :: "js_object \<Rightarrow> addressData parsed" where
  "addressDataSchema input =
     (let r_regionVivienda = optional_string ''regionVivienda'' (input ''regionVivienda'');
          r_provinciaVivienda =
            optional_string ''provinciaVivienda'' (input ''provinciaVivienda'');
          r_distritoVivienda =
            optional_string ''distritoVivienda'' (input ''distritoVivienda'');
          r_direccionVivienda =
            optional_string ''direccionVivienda'' (input ''direccionVivienda'');
          r_mz = optional_string ''mz'' (input ''mz'');
          r_lote = optional_string ''lote'' (input ''lote'')
      in (fst r_regionVivienda @ fst r_provinciaVivienda @ fst r_distritoVivienda
          @ fst r_direccionVivienda @ fst r_mz @ fst r_lote,
          do {
            v_regionVivienda \<leftarrow> snd r_regionVivienda;
            v_provinciaVivienda \<leftarrow> snd r_provinciaVivienda;
            v_distritoVivienda \<leftarrow> snd r_distritoVivienda;
            v_direccionVivienda \<leftarrow> snd r_direccionVivienda;
            v_mz \<leftarrow> snd r_mz;
            v_lote \<leftarrow> snd r_lote;
            Some (SocioTitularFormValues.fields v_regionVivienda v_provinciaVivienda
                    v_distritoVivienda v_direccionVivienda v_mz v_lote)
          }))"

text \<open>
  \<open>z.intersection(personalDataSchema, addressDataSchema)\<close>: both sides parse the input; the
  result is aborted when one of them is, and otherwise it is the value of the left side
  extended by the fields of the right side (the two have no key in common).
\<close>

definition formSchema :: "js_object \<Rightarrow> SocioTitularFormValues parsed" where
  "formSchema input =
     (let left = personalDataSchema input; right = addressDataSchema input
      in (fst left @ fst right,
          do {
            l \<leftarrow> snd left;
            r \<leftarrow> snd right;
            Some (personalData.extend l r)
          }))"

definition issues_on :: "string \<Rightarrow> issue list \<Rightarrow> issue list" where
  "issues_on p = filter (\<lambda>i. path i = p)"

text \<open>
  The wording of the specification, on the values of the form: a flag that is true, a
  detail that is absent, null or only white space, and a detail that is too long. The
  fields of the personal data pass the check of their type when the texts are strings,
  the optional ones may also be null or absent, the age is a number other than \<open>NaN\<close>, the
  economic situation is one of its two values and the flags are booleans or absent.
\<close>

definition absent_null_or_blank :: "jsval \<Rightarrow> bool" where
  "absent_null_or_blank v =
     (case v of
        JUndefined \<Rightarrow> True
      | JNull \<Rightarrow> True
      | JStr s \<Rightarrow> list_all is_js_whitespace s
      | _ \<Rightarrow> False)"

definition too_long :: "jsval \<Rightarrow> bool" where
  "too_long v = (case v of JStr s \<Rightarrow> 1000 < length s | _ \<Rightarrow> False)"

definition is_string :: "jsval \<Rightarrow> bool" where
  "is_string v = (case v of JStr s \<Rightarrow> True | _ \<Rightarrow> False)"

definition string_or_absent :: "jsval \<Rightarrow> bool" where
  "string_or_absent v = (is_string v \<or> v = JNull \<or> v = JUndefined)"

definition number_or_absent :: "jsval \<Rightarrow> bool" where
  "number_or_absent v =
     (case v of JNum n \<Rightarrow> n \<noteq> NaN | JNull \<Rightarrow> True | JUndefined \<Rightarrow> True | _ \<Rightarrow> False)"

definition boolean_or_absent :: "jsval \<Rightarrow> bool" where
  "boolean_or_absent v = (case v of JBool b \<Rightarrow> True | JUndefined \<Rightarrow> True | _ \<Rightarrow> False)"

definition personal_typed :: "js_object \<Rightarrow> bool" where
  "personal_typed input =
     (is_string (input ''dni'') \<and> is_string (input ''nombres'')
      \<and> is_string (input ''apellidoPaterno'') \<and> is_string (input ''apellidoMaterno'')
      \<and> is_string (input ''fechaNacimiento'') \<and> number_or_absent (input ''edad'')
      \<and> string_or_absent (input ''celular'')
      \<and> (input ''situacionEconomica'' = JStr ''Pobre''
          \<or> input ''situacionEconomica'' = JStr ''Extremo Pobre'')
      \<and> is_string (input ''direccionDNI'') \<and> is_string (input ''regionDNI'')
      \<and> is_string (input ''provinciaDNI'') \<and> is_string (input ''distritoDNI'')
      \<and> is_string (input ''localidad'') \<and> boolean_or_absent (input ''isObservado'')
      \<and> string_or_absent (input ''observacion'')
      \<and> boolean_or_absent (input ''isPaymentObserved'')
      \<and> string_or_absent (input ''paymentObservationDetail''))"

text \<open>
  The values of a filled form, and the values that the schema yields for them; the default
  values of the form, as \<open>useForm\<close> sets them.
\<close>

definition example_input :: js_object where
  "example_input =
     (\<lambda>k. JUndefined)
     (''dni'' := JStr ''12345678'', ''nombres'' := JStr ''Ana'',
      ''apellidoPaterno'' := JStr ''Rojas'', ''apellidoMaterno'' := JStr ''Quispe'',
      ''fechaNacimiento'' := JStr ''1990-04-02'', ''edad'' := JNum (Finite 35),
      ''celular'' := JStr ''987654321'', ''situacionEconomica'' := JStr ''Pobre'',
      ''direccionDNI'' := JStr ''Jr. Lima 120'', ''regionDNI'' := JStr ''Junin'',
      ''provinciaDNI'' := JStr ''Huancayo'', ''distritoDNI'' := JStr ''El Tambo'',
      ''localidad'' := JStr ''Centro'',
      ''isObservado'' := JBool False, ''observacion'' := JStr [],
      ''isPaymentObserved'' := JBool False, ''paymentObservationDetail'' := JStr [],
      ''regionVivienda'' := JStr [], ''provinciaVivienda'' := JStr [],
      ''distritoVivienda'' := JStr [], ''direccionVivienda'' := JStr [],
      ''mz'' := JStr ''B'', ''lote'' := JStr ''7'')"

definition example_socio :: SocioTitularFormValues where
  "example_socio =
     \<lparr> dni = ''12345678'', nombres = ''Ana'', apellidoPaterno = ''Rojas'',
       apellidoMaterno = ''Quispe'', fechaNacimiento = ''1990-04-02'',
       edad = Value (Finite 35),
       celular = Value ''987654321'', situacionEconomica = Pobre,
       direccionDNI = ''Jr. Lima 120'', regionDNI = ''Junin'', provinciaDNI = ''Huancayo'',
       distritoDNI = ''El Tambo'', localidad = ''Centro'',
       isObservado = False, observacion = Value [],
       isPaymentObserved = False, paymentObservationDetail = Value [],
       regionVivienda = Value [], provinciaVivienda = Value [], distritoVivienda = Value [],
       direccionVivienda = Value [], mz = Value ''B'', lote = Value ''7'' \<rparr>"

definition defaultValues :: js_object where
  "defaultValues =
     (\<lambda>k. JUndefined)
     (''dni'' := JStr [], ''nombres'' := JStr [], ''apellidoPaterno'' := JStr [],
      ''apellidoMaterno'' := JStr [], ''fechaNacimiento'' := JStr [], ''edad'' := JNull,
      ''celular'' := JStr [], ''situacionEconomica'' := JUndefined,
      ''direccionDNI'' := JStr [], ''regionDNI'' := JStr [], ''provinciaDNI'' := JStr [],
      ''distritoDNI'' := JStr [], ''localidad'' := JStr [],
      ''isObservado'' := JBool False, ''observacion'' := JStr [],
      ''isPaymentObserved'' := JBool False, ''paymentObservationDetail'' := JStr [],
      ''regionVivienda'' := JStr [], ''provinciaVivienda'' := JStr [],
      ''distritoVivienda'' := JStr [], ''direccionVivienda'' := JStr [],
      ''mz'' := JStr [], ''lote'' := JStr [])"

text \<open>
  Three forms used below: an observed socio whose observation is blank; a long observation
  without the flag; and a filled form, marked as observed with an empty observation, whose
  economic situation is still the default.
\<close>

definition observed_blank :: js_object where
  "observed_blank =
     example_input(''isObservado'' := JBool True, ''observacion'' := JStr ''  '')"

definition long_unobserved :: js_object where
  "long_unobserved = example_input(''observacion'' := JStr (replicate 1001 (CHR ''a'')))"

definition observed_unchosen :: js_object where
  "observed_unchosen =
     example_input(''isObservado'' := JBool True,
       ''situacionEconomica'' := defaultValues ''situacionEconomica'')"

section \<open>Registration form: the identity lookup\<close>

text \<open>
  \<open>fetchReniecDataAndPopulate\<close>. The routine reads and writes eight text fields of the
  form through \<open>watch\<close> and \<open>setValue\<close>; the form is the store of these fields, and
  \<open>watch\<close> sees what \<open>setValue\<close> has just written. What the routine does besides is a
  list of events, in the order of the code: the requests sent to the three providers, the
  lines written to the console, the toasts, and the changes of \<open>isReniecSearching\<close>.
  The other handlers of the application add their own events: the queries and writes sent
  to the backend, the calls on the form and the callbacks of the dialog.
\<close>

datatype field =
  Nombres | ApellidoPaterno | ApellidoMaterno | FechaNacimiento
  | DireccionDNI | RegionDNI | ProvinciaDNI | DistritoDNI

type_synonym form_store = "field \<Rightarrow> string option"

datatype api = Primary | Secondary | Tertiary

datatype toast_level = toast_success | toast_info | toast_warning | toast_error

datatype event =
  Query api
  | ConsoleError string string
  | Toast toast_level string
  | SetIsReniecSearching bool
  | SelectIdsByDni string
  | UpdateSocio string dataToSave
  | InsertSocio dataToSave
  | SetError string string string
  | SetFocus string
  | OnSuccess
  | OnClose
  | ResetForm
  | UpdateLoteMedido string bool
  | SetLocalLoteMedido string "bool option"

text \<open>
  A request either fails (the promise is rejected, with a message) or returns a body. The
  bodies have the fields that the code reads; each may be missing.
\<close>

datatype 'a http = Throws string | Returns 'a

record primary_data =
  name :: "string option"
  surname :: "string option"
  date_of_birth :: "string option"
  address :: "string option"
  department :: "string option"
  province :: "string option"
  district :: "string option"

record primary_body =
  p_success :: bool
  p_data :: "primary_data option"

record secondary_domicilio =
  direccion :: "string option"
  departamento :: "string option"
  provincia :: "string option"
  distrito :: "string option"

record secondary_data =
  s_nombres :: "string option"
  ape_paterno :: "string option"
  ape_materno :: "string option"
  domiciliado :: "secondary_domicilio option"

record secondary_body =
  s_success :: bool
  datos :: "secondary_data option"

record tertiary_body =
  t_DNI :: "string option"
  t_NOMBRES :: "string option"
  t_AP_PAT :: "string option"
  t_AP_MAT :: "string option"
  t_FECHA_NAC :: "string option"
  t_DIRECCION :: "string option"

text \<open>The tokens of the environment, and what each provider answers to a request for a DNI.\<close>

record env =
  VITE_CONSULTAS_PERU_API_TOKEN :: "string option"
  VITE_MIAPI_CLOUD_API_TOKEN :: "string option"
  VITE_CONSULTADATOS_TOKEN :: "string option"

record providers =
  primary_api :: "string \<Rightarrow> primary_body http"
  secondary_api :: "string \<Rightarrow> secondary_body http"
  tertiary_api :: "string \<Rightarrow> tertiary_body option http"

record lookup =
  form :: form_store
  dataFound :: bool
  events :: "event list"

text \<open>
  The result of a block that may raise: \<open>Thrown e s\<close> is the exception \<open>e\<close> leaving the
  block in state \<open>s\<close>.
\<close>

datatype 'a outcome = Done 'a | Thrown string 'a

definition emit :: "event \<Rightarrow> lookup \<Rightarrow> lookup" where
  "emit e s = s\<lparr> events := events s @ [e] \<rparr>"

definition watch :: "lookup \<Rightarrow> field \<Rightarrow> string option" where
  "watch s f = form s f"

definition setValue :: "field \<Rightarrow> string option \<Rightarrow> lookup \<Rightarrow> lookup" where
  "setValue f v s = s\<lparr> form := (form s)(f := v) \<rparr>"

text \<open>\<open>if (!watch(f)) setValue(f, v)\<close>.\<close>

definition fill :: "field \<Rightarrow> string option \<Rightarrow> lookup \<Rightarrow> lookup" where
  "fill f v s = (if \<not> truthy_str (watch s f) then setValue f v s else s)"

text \<open>\<open>v || ''\<close>.\<close>

definition or_empty :: "string option \<Rightarrow> string option" where
  "or_empty v = (if truthy_str v then v else Some [])"

definition fieldsToCheck :: "field list" where
  "fieldsToCheck =
     [Nombres, ApellidoPaterno, ApellidoMaterno, FechaNacimiento,
      DireccionDNI, RegionDNI, ProvinciaDNI, DistritoDNI]"

definition checkMissingFields :: "lookup \<Rightarrow> bool" where
  "checkMissingFields s = list_ex (\<lambda>f. \<not> truthy_str (watch s f)) fieldsToCheck"

definition formatDateToISO :: "string option \<Rightarrow> string" where
  "formatDateToISO dateStr =
     (case dateStr of
        None \<Rightarrow> []
      | Some d \<Rightarrow>
          if d = [] then []
          else if CHR ''-'' \<in> set d then d
          else (case js_split (CHR ''/'') d of
                  [day, month, year] \<Rightarrow> year @ ''-'' @ month @ ''-'' @ day
                | _ \<Rightarrow> d))"

text \<open>\<open>data.surname ? data.surname.split(' ') : []\<close>, and \<open>surnames[i] || ''\<close>.\<close>

definition surnames_of :: "string option \<Rightarrow> string list" where
  "surnames_of v =
     (case v of None \<Rightarrow> [] | Some sn \<Rightarrow> if sn = [] then [] else js_split (CHR '' '') sn)"

definition nth_or_empty :: "string list \<Rightarrow> nat \<Rightarrow> string option" where
  "nth_or_empty xs i = Some (if i < length xs then xs ! i else [])"

text \<open>The body of the first \<open>try\<close>: the main provider.\<close>

definition primary_try :: "env \<Rightarrow> providers \<Rightarrow> string \<Rightarrow> lookup \<Rightarrow> lookup outcome" where
  "primary_try e p dni' s =
     (if \<not> truthy_str (VITE_CONSULTAS_PERU_API_TOKEN e)
      then Thrown ''VITE_CONSULTAS_PERU_API_TOKEN no configurado'' s
      else
        (case primary_api p dni' of
           Throws err \<Rightarrow> Thrown err (emit (Query Primary) s)
         | Returns body \<Rightarrow>
             (case p_data body of
                None \<Rightarrow> Done (emit (Query Primary) s)
              | Some d \<Rightarrow>
                  if \<not> p_success body then Done (emit (Query Primary) s)
                  else
                    Done (emit (Toast toast_success ''Datos encontrados (API Principal)'')
                      ((setValue DistritoDNI (or_empty (district d))
                        (setValue ProvinciaDNI (or_empty (province d))
                        (setValue RegionDNI (or_empty (department d))
                        (setValue DireccionDNI (or_empty (address d))
                        (setValue FechaNacimiento (or_empty (date_of_birth d))
                        (setValue ApellidoMaterno (nth_or_empty (surnames_of (surname d)) 1)
                        (setValue ApellidoPaterno (nth_or_empty (surnames_of (surname d)) 0)
                        (setValue Nombres (or_empty (name d))
                        (emit (Query Primary) s)))))))))
                       \<lparr> dataFound := True \<rparr>)))))"

text \<open>
  The body of the second \<open>try\<close>. The toast after \<open>dataFound = true\<close> is guarded by
  \<open>!dataFound\<close>, as in the code.
\<close>

definition domicilio_field ::
  "(secondary_domicilio \<Rightarrow> string option) \<Rightarrow> secondary_data \<Rightarrow> string option" where
  "domicilio_field sel d = (case domiciliado d of None \<Rightarrow> None | Some dm \<Rightarrow> sel dm)"

definition secondary_try :: "env \<Rightarrow> providers \<Rightarrow> string \<Rightarrow> lookup \<Rightarrow> lookup outcome" where
  "secondary_try e p dni' s =
     (if \<not> truthy_str (VITE_MIAPI_CLOUD_API_TOKEN e) then Done s
      else
        (case secondary_api p dni' of
           Throws err \<Rightarrow> Thrown err (emit (Query Secondary) s)
         | Returns body \<Rightarrow>
             (case datos body of
                None \<Rightarrow> Done (emit (Query Secondary) s)
              | Some d \<Rightarrow>
                  if \<not> s_success body then Done (emit (Query Secondary) s)
                  else
                    (let s' =
                       (fill DistritoDNI (domicilio_field distrito d)
                        (fill ProvinciaDNI (domicilio_field provincia d)
                        (fill RegionDNI (domicilio_field departamento d)
                        (fill DireccionDNI (domicilio_field direccion d)
                        (fill ApellidoMaterno (ape_materno d)
                        (fill ApellidoPaterno (ape_paterno d)
                        (fill Nombres (s_nombres d)
                        (emit (Query Secondary) s))))))))
                       \<lparr> dataFound := True \<rparr>
                     in Done (if \<not> dataFound s'
                              then emit (Toast toast_info
                                     ''Datos complementados (API Secundaria)'') s'
                              else s')))))"

text \<open>The body of the third \<open>try\<close>: the provider behind the proxy.\<close>

definition tertiary_try :: "env \<Rightarrow> providers \<Rightarrow> string \<Rightarrow> lookup \<Rightarrow> lookup outcome" where
  "tertiary_try e p dni' s =
     (if \<not> truthy_str (VITE_CONSULTADATOS_TOKEN e) then Done s
      else
        (case tertiary_api p dni' of
           Throws err \<Rightarrow> Thrown err (emit (Query Tertiary) s)
         | Returns None \<Rightarrow> Done (emit (Query Tertiary) s)
         | Returns (Some t) \<Rightarrow>
             if \<not> (truthy_str (t_DNI t) \<or> truthy_str (t_NOMBRES t))
             then Done (emit (Query Tertiary) s)
             else
               Done (emit (Toast toast_info ''Datos complementados (API Terciaria)'')
                 ((fill DireccionDNI (t_DIRECCION t)
                   (fill FechaNacimiento (Some (formatDateToISO (t_FECHA_NAC t)))
                   (fill ApellidoMaterno (t_AP_MAT t)
                   (fill ApellidoPaterno (t_AP_PAT t)
                   (fill Nombres (t_NOMBRES t)
                   (emit (Query Tertiary) s))))))
                  \<lparr> dataFound := True \<rparr>))))"

text \<open>\<open>catch (error) { console.error(label, error) }\<close>.\<close>

definition catch_log :: "string \<Rightarrow> lookup outcome \<Rightarrow> lookup" where
  "catch_log label r =
     (case r of Done s \<Rightarrow> s | Thrown err s \<Rightarrow> emit (ConsoleError label err) s)"

text \<open>The state after each of the three attempts, for a DNI that passed the first check.\<close>

definition after_primary :: "env \<Rightarrow> providers \<Rightarrow> string \<Rightarrow> form_store \<Rightarrow> lookup" where
  "after_primary e p dni' frm =
     catch_log ''Error API Principal:''
       (primary_try e p dni'
          \<lparr> form = frm, dataFound = False, events = [SetIsReniecSearching True] \<rparr>)"

definition after_secondary :: "env \<Rightarrow> providers \<Rightarrow> string \<Rightarrow> form_store \<Rightarrow> lookup" where
  "after_secondary e p dni' frm =
     (let s = after_primary e p dni' frm
      in if \<not> dataFound s \<or> checkMissingFields s
         then catch_log ''Error API Secundaria:'' (secondary_try e p dni' s)
         else s)"

definition after_tertiary :: "env \<Rightarrow> providers \<Rightarrow> string \<Rightarrow> form_store \<Rightarrow> lookup" where
  "after_tertiary e p dni' frm =
     (let s = after_secondary e p dni' frm
      in if \<not> dataFound s \<or> checkMissingFields s
         then catch_log ''Error API Terciaria:'' (tertiary_try e p dni' s)
         else s)"

definition fetchReniecDataAndPopulate ::
  "env \<Rightarrow> providers \<Rightarrow> string \<Rightarrow> form_store \<Rightarrow> (bool \<times> lookup) outcome" where
  "fetchReniecDataAndPopulate e p dni' frm =
     (if dni' = [] \<or> length dni' \<noteq> 8
      then Done (False, \<lparr> form = frm, dataFound = False, events = [] \<rparr>)
      else
        (let s = emit (SetIsReniecSearching False) (after_tertiary e p dni' frm);
             s' = (if \<not> dataFound s
                   then emit (Toast toast_warning
                          ''No se encontraron datos completos en ninguna API.'') s
                   else s)
         in Done (dataFound s', s')))"

text \<open>The providers that were sent a request, in order.\<close>

fun queried :: "event list \<Rightarrow> api list" where
  "queried [] = []"
| "queried (Query a # es) = a # queried es"
| "queried (_ # es) = queried es"


text \<open>What the routine leaves behind: the events and the form at its return.\<close>

definition lookup_result :: "(bool \<times> lookup) outcome \<Rightarrow> lookup" where
  "lookup_result r = (case r of Done (b, s) \<Rightarrow> s | Thrown err (b, s) \<Rightarrow> s)"

text \<open>The providers that a call of the routine queried; an empty form, two environments and the answers of three providers, used below.\<close>

definition queried_by :: "env \<Rightarrow> providers \<Rightarrow> string \<Rightarrow> form_store \<Rightarrow> api list" where
  "queried_by e p dni' frm =
     queried (events (lookup_result (fetchReniecDataAndPopulate e p dni' frm)))"

definition empty_form :: form_store where
  "empty_form = (\<lambda>f. Some [])"

definition all_tokens :: env where
  "all_tokens =
     \<lparr> VITE_CONSULTAS_PERU_API_TOKEN = Some ''t1'', VITE_MIAPI_CLOUD_API_TOKEN = Some ''t2'',
       VITE_CONSULTADATOS_TOKEN = Some ''t3'' \<rparr>"

definition no_primary_token :: env where
  "no_primary_token =
     \<lparr> VITE_CONSULTAS_PERU_API_TOKEN = None, VITE_MIAPI_CLOUD_API_TOKEN = Some ''t2'',
       VITE_CONSULTADATOS_TOKEN = None \<rparr>"

definition example_providers :: providers where
  "example_providers =
     \<lparr> primary_api = (\<lambda>d. Returns
         \<lparr> p_success = True,
           p_data = Some \<lparr> name = Some ''ANA'', surname = Some ''ROJAS QUISPE'',
             date_of_birth = Some ''1990-04-02'', address = Some ''JR LIMA 120'',
             department = Some ''JUNIN'', province = Some ''HUANCAYO'', district = None \<rparr> \<rparr>),
       secondary_api = (\<lambda>d. Returns
         \<lparr> s_success = True,
           datos = Some \<lparr> s_nombres = Some ''ANA MARIA'', ape_paterno = Some ''ROJAS'',
             ape_materno = Some ''QUISPE'',
             domiciliado = Some \<lparr> direccion = Some ''AV PERU 1'', departamento = Some ''JUNIN'',
               provincia = Some ''HUANCAYO'', distrito = Some ''EL TAMBO'' \<rparr> \<rparr> \<rparr>),
       tertiary_api = (\<lambda>d. Throws ''Network Error'') \<rparr>"







section \<open>Registration form: confirming the submission\<close>

text \<open>
  \<open>handleConfirmSubmit\<close>. The backend client answers a query with a promise that is
  rejected, or fulfilled with an object holding the rows or an error; an error is its
  message. The answers to the uniqueness query and to the write are inputs. The rows of the
  uniqueness query are the ids selected.
\<close>

datatype 'a promise = Rejected string | Fulfilled 'a

record 'a query_result =
  qdata :: "'a list option"
  qerror :: "string option"

datatype tab = personal | address

record submit =
  isConfirmDialogOpen :: bool
  dataToConfirm :: "SocioTitularFormValues option"
  isConfirmingSubmission :: bool
  activeTab :: tab
  submit_events :: "event list"

definition submit_emit :: "event list \<Rightarrow> submit \<Rightarrow> submit" where
  "submit_emit evs st = st\<lparr> submit_events := submit_events st @ evs \<rparr>"

definition msg_dni_registrado :: string where
  "msg_dni_registrado = ''Este DNI ya est'' @ [CHR 0xE1] @ '' registrado.''"

text \<open>
  \<open>existingSocios && existingSocios.length > 0 &&
  (socioId === undefined || existingSocios[0].id !== socioId)\<close>.
\<close>

definition isDuplicateDni :: "string option \<Rightarrow> string list option \<Rightarrow> bool" where
  "isDuplicateDni socioId existingSocios =
     (case existingSocios of
        None \<Rightarrow> False
      | Some rows \<Rightarrow>
          (case rows of
             [] \<Rightarrow> False
           | first # _ \<Rightarrow> socioId = None \<or> Some first \<noteq> socioId))"

text \<open>What follows the answer to the insert or the update: \<open>if (error) throw error\<close>.\<close>

definition written :: "unit query_result promise \<Rightarrow> event list \<Rightarrow> submit \<Rightarrow> submit outcome" where
  "written answer evs st =
     (case answer of
        Rejected msg \<Rightarrow> Thrown msg st
      | Fulfilled w \<Rightarrow>
          (case qerror w of
             Some msg \<Rightarrow> Thrown msg st
           | None \<Rightarrow> Done (submit_emit evs st)))"

definition handleConfirmSubmit_try ::
  "string option \<Rightarrow> SocioTitularFormValues \<Rightarrow> string query_result promise
     \<Rightarrow> unit query_result promise \<Rightarrow> submit \<Rightarrow> submit outcome" where
  "handleConfirmSubmit_try socioId d dniCheck writeAnswer st =
     (let st1 = submit_emit [SelectIdsByDni (dni d)] st
      in case dniCheck of
           Rejected msg \<Rightarrow> Thrown msg st1
         | Fulfilled r \<Rightarrow>
             (case qerror r of
                Some msg \<Rightarrow> Thrown (''Error al verificar DNI: '' @ msg) st1
              | None \<Rightarrow>
                  if isDuplicateDni socioId (qdata r)
                  then Done ((submit_emit
                                [Toast toast_error ''DNI Duplicado'',
                                 SetError ''dni'' ''manual'' msg_dni_registrado,
                                 SetFocus ''dni''] st1)
                             \<lparr> isConfirmDialogOpen := False,
                               isConfirmingSubmission := False \<rparr>)
                  else
                    (case socioId of
                       Some sid \<Rightarrow>
                         written writeAnswer
                           [Toast toast_success ''Socio actualizado'', OnSuccess, OnClose]
                           (submit_emit [UpdateSocio sid (dataToSave_of d)] st1)
                     | None \<Rightarrow>
                         (case written writeAnswer
                                 [Toast toast_success ''Socio registrado'', ResetForm]
                                 (submit_emit [InsertSocio (dataToSave_of d)] st1) of
                            Thrown msg st2 \<Rightarrow> Thrown msg st2
                          | Done st2 \<Rightarrow>
                              Done (st2\<lparr> isConfirmDialogOpen := False,
                                         dataToConfirm := None,
                                         isConfirmingSubmission := False,
                                         activeTab := personal \<rparr>)))))"

definition handleConfirmSubmit_catch :: "submit outcome \<Rightarrow> submit outcome" where
  "handleConfirmSubmit_catch r =
     (case r of
        Done st \<Rightarrow> Done st
      | Thrown msg st \<Rightarrow>
          Done (submit_emit
                  [ConsoleError ''Error al guardar el socio:'' msg,
                   Toast toast_error ''Error al guardar socio''] st))"

definition handleConfirmSubmit_finally :: "submit outcome \<Rightarrow> submit outcome" where
  "handleConfirmSubmit_finally r =
     (case r of
        Done st \<Rightarrow> Done (st\<lparr> isConfirmingSubmission := False \<rparr>)
      | Thrown msg st \<Rightarrow> Thrown msg (st\<lparr> isConfirmingSubmission := False \<rparr>))"

definition handleConfirmSubmit ::
  "string option \<Rightarrow> string query_result promise \<Rightarrow> unit query_result promise
     \<Rightarrow> submit \<Rightarrow> submit outcome" where
  "handleConfirmSubmit socioId dniCheck writeAnswer st =
     (case dataToConfirm st of
        None \<Rightarrow> Done st
      | Some d \<Rightarrow>
          handleConfirmSubmit_finally
            (handleConfirmSubmit_catch
               (handleConfirmSubmit_try socioId d dniCheck writeAnswer
                  (st\<lparr> isConfirmingSubmission := True \<rparr>))))"

text \<open>The inserts and updates among the events, and the state an outcome ends in.\<close>

fun writes :: "event list \<Rightarrow> event list" where
  "writes [] = []"
| "writes (UpdateSocio sid d # es) = UpdateSocio sid d # writes es"
| "writes (InsertSocio d # es) = InsertSocio d # writes es"
| "writes (_ # es) = writes es"

definition submit_of :: "submit outcome \<Rightarrow> submit" where
  "submit_of r = (case r of Done st \<Rightarrow> st | Thrown msg st \<Rightarrow> st)"

definition confirming :: "SocioTitularFormValues \<Rightarrow> submit" where
  "confirming d =
     \<lparr> isConfirmDialogOpen = True, dataToConfirm = Some d, isConfirmingSubmission = False,
       activeTab = personal, submit_events = [] \<rparr>"

definition rows_found :: "'a list \<Rightarrow> 'a query_result promise" where
  "rows_found rows = Fulfilled \<lparr> qdata = Some rows, qerror = None \<rparr>"

section \<open>Partner documents page\<close>

text \<open>
  The page component that follows \<open>DataTable\<close> in
  \<^verbatim>\<open>src/components/ui-custom/DataTable.tsx\<close>: \<open>fetchAllData\<close> and
  \<open>handleUpdateLoteMedido\<close>. A row of \<open>socio_titulares\<close> comes with its documents;
  \<open>SocioConDocumentos\<close> adds the payment information. The record fields that would clash
  with those of the form carry the prefix \<open>socio_\<close>.
\<close>

record SocioDocumento =
  doc_id :: int
  tipo_documento :: string
  link_documento :: "string option"
  transaction_type :: "string option"

datatype payment_status = Pagado | No_Pagado

record IngresoInfo =
  status :: payment_status
  receipt_number :: "string option"

record socio_row =
  socio_id :: string
  socio_dni :: string
  socio_nombres :: string
  socio_apellidoPaterno :: string
  socio_apellidoMaterno :: string
  socio_localidad :: string
  socio_mz :: "string option"
  socio_lote :: "string option"
  is_lote_medido :: "bool option"
  socio_documentos :: "SocioDocumento list"

record SocioConDocumentos = socio_row +
  paymentInfo :: IngresoInfo

record ingreso =
  ingreso_dni :: "string option"
  ingreso_receipt_number :: "string option"
  ingreso_transaction_type :: "string option"

text \<open>
  The message of the \<open>TypeError\<close> raised by reading a property of \<open>null\<close>, as
  \<open>error.message\<close> gives it.
\<close>

definition type_error :: "string \<Rightarrow> string" where
  "type_error property =
     ''Cannot read properties of null (reading '' @ [CHR 0x27] @ property @ [CHR 0x27] @ '')''"

definition planos_de_ubicacion :: string where
  "planos_de_ubicacion = ''Planos de ubicaci'' @ [CHR 0xF3] @ ''n''"

definition memoria_descriptiva :: string where
  "memoria_descriptiva = ''Memoria descriptiva''"

definition comprobante_de_pago :: string where
  "comprobante_de_pago = ''Comprobante de Pago''"

definition allowedDocumentTypes :: "string list" where
  "allowedDocumentTypes =
     [planos_de_ubicacion, memoria_descriptiva, ''Ficha'', ''Contrato'', comprobante_de_pago]"

definition validTransactionTypes :: "string list" where
  "validTransactionTypes = [''Venta'', ''Ingreso'', ''Recibo de Pago'']"

text \<open>The two maps built from the rows of \<open>ingresos\<close>, one \<open>forEach\<close> each.\<close>

definition add_by_dni ::
  "ingreso \<Rightarrow> (string \<rightharpoonup> (string option \<times> string option) list)
     \<Rightarrow> (string \<rightharpoonup> (string option \<times> string option) list)" where
  "add_by_dni i m =
     (case ingreso_dni i of
        None \<Rightarrow> m
      | Some d \<Rightarrow>
          if d = [] then m
          else m(d \<mapsto> (case m d of None \<Rightarrow> [] | Some l \<Rightarrow> l)
                        @ [(ingreso_receipt_number i, ingreso_transaction_type i)]))"

definition ingresosByDni ::
  "ingreso list \<Rightarrow> (string \<rightharpoonup> (string option \<times> string option) list)" where
  "ingresosByDni rows = fold add_by_dni rows Map.empty"

definition add_receipt_type :: "ingreso \<Rightarrow> (string \<rightharpoonup> string) \<Rightarrow> (string \<rightharpoonup> string)" where
  "add_receipt_type i m =
     (case (ingreso_receipt_number i, ingreso_transaction_type i) of
        (Some r, Some t) \<Rightarrow> if r \<noteq> [] \<and> t \<noteq> [] then m(r \<mapsto> t) else m
      | _ \<Rightarrow> m)"

definition receiptTransactionTypeMap :: "ingreso list \<Rightarrow> (string \<rightharpoonup> string)" where
  "receiptTransactionTypeMap rows = fold add_receipt_type rows Map.empty"

text \<open>The loop over the payments of a socio, left at the first valid receipt.\<close>

fun first_valid_receipt :: "(string option \<times> string option) list \<Rightarrow> string option" where
  "first_valid_receipt [] = None"
| "first_valid_receipt ((r, t) # rest) =
     (if truthy_str r \<and> truthy_str t \<and> the t \<in> set validTransactionTypes then r
      else first_valid_receipt rest)"

definition paymentInfo_of :: "(string option \<times> string option) list \<Rightarrow> IngresoInfo" where
  "paymentInfo_of socioIngresos =
     (case first_valid_receipt socioIngresos of
        None \<Rightarrow> \<lparr> status = No_Pagado, receipt_number = None \<rparr>
      | Some r \<Rightarrow> \<lparr> status = Pagado, receipt_number = Some r \<rparr>)"

text \<open>The file name at the end of a link, without its first \<open>.pdf\<close>.\<close>

definition serieCorrelativo :: "string \<Rightarrow> string" where
  "serieCorrelativo link = js_replace ''.pdf'' [] (last (js_split (CHR ''/'') link))"

definition keep_document :: "(string \<rightharpoonup> string) \<Rightarrow> SocioDocumento \<Rightarrow> bool" where
  "keep_document receipts doc =
     (if tipo_documento doc \<notin> set allowedDocumentTypes \<or> \<not> truthy_str (link_documento doc)
      then False
      else if tipo_documento doc = comprobante_de_pago
      then (case receipts (serieCorrelativo (the (link_documento doc))) of
              None \<Rightarrow> False
            | Some t \<Rightarrow> t \<noteq> [] \<and> t \<in> set validTransactionTypes)
      else True)"

definition tag_document :: "(string \<rightharpoonup> string) \<Rightarrow> SocioDocumento \<Rightarrow> SocioDocumento" where
  "tag_document receipts doc =
     (if tipo_documento doc = comprobante_de_pago \<and> truthy_str (link_documento doc)
      then doc\<lparr> transaction_type := receipts (serieCorrelativo (the (link_documento doc))) \<rparr>
      else doc)"

definition has_document :: "string \<Rightarrow> SocioDocumento list \<Rightarrow> bool" where
  "has_document tipo docs =
     list_ex (\<lambda>doc. tipo_documento doc = tipo \<and> truthy_str (link_documento doc)) docs"

text \<open>The callback of \<open>sociosRes.data.map\<close>.\<close>

definition processSocio ::
  "(string \<rightharpoonup> (string option \<times> string option) list) \<Rightarrow> (string \<rightharpoonup> string)
     \<Rightarrow> socio_row \<Rightarrow> SocioConDocumentos" where
  "processSocio byDni receipts socio =
     (let socioIngresos = (case byDni (socio_dni socio) of None \<Rightarrow> [] | Some l \<Rightarrow> l);
          filteredSocioDocuments =
            map (tag_document receipts)
              (filter (keep_document receipts) (socio_documentos socio));
          hasPlanos = has_document planos_de_ubicacion filteredSocioDocuments;
          hasMemoria = has_document memoria_descriptiva filteredSocioDocuments;
          isMeasuredByDocument = (hasPlanos \<or> hasMemoria);
          finalIsLoteMedido =
            (isMeasuredByDocument
             \<or> (case is_lote_medido socio of None \<Rightarrow> False | Some b \<Rightarrow> b))
      in (socio_row.extend socio
            (SocioConDocumentos.fields (paymentInfo_of socioIngresos)))
         \<lparr> is_lote_medido := Some finalIsLoteMedido,
           socio_documentos := filteredSocioDocuments \<rparr>)"

record page =
  sociosConDocumentos :: "SocioConDocumentos list"
  loading :: bool
  error :: "string option"
  localidades :: "string list"
  page_events :: "event list"

definition page_emit :: "event \<Rightarrow> page \<Rightarrow> page" where
  "page_emit ev st = st\<lparr> page_events := page_events st @ [ev] \<rparr>"

text \<open>
  The body of the \<open>try\<close> of \<open>fetchAllData\<close>. The three queries are awaited together; the
  distinct localities are sorted, so the order in which \<open>Set\<close> met them does not show.
\<close>

definition fetchAllData_try ::
  "(socio_row query_result \<times> string option query_result \<times> ingreso query_result) promise
     \<Rightarrow> page \<Rightarrow> page outcome" where
  "fetchAllData_try answer st =
     (case answer of
        Rejected msg \<Rightarrow> Thrown msg st
      | Fulfilled (sociosRes, localidadesRes, ingresosRes) \<Rightarrow>
          (case qerror sociosRes of Some msg \<Rightarrow> Thrown msg st | None \<Rightarrow>
          (case qerror localidadesRes of Some msg \<Rightarrow> Thrown msg st | None \<Rightarrow>
          (case qerror ingresosRes of Some msg \<Rightarrow> Thrown msg st | None \<Rightarrow>
          (case qdata localidadesRes of None \<Rightarrow> Thrown (type_error ''map'') st | Some locs \<Rightarrow>
             (let st1 = st\<lparr> localidades :=
                          sort (remdups (map the (filter truthy_str locs))) \<rparr>
              in (case qdata ingresosRes of None \<Rightarrow> Thrown (type_error ''forEach'') st1
                  | Some ings \<Rightarrow>
                 (case qdata sociosRes of None \<Rightarrow> Thrown (type_error ''map'') st1
                  | Some socios \<Rightarrow>
                    Done (st1\<lparr> sociosConDocumentos :=
                                 map (processSocio (ingresosByDni ings)
                                        (receiptTransactionTypeMap ings)) socios,
                               error := None \<rparr>)))))))))"

definition msg_error_al_cargar :: string where
  "msg_error_al_cargar =
     ''Error al cargar los datos. Por favor, revisa la consola para m'' @ [CHR 0xE1]
     @ ''s detalles.''"

definition fetchAllData_catch :: "page outcome \<Rightarrow> page outcome" where
  "fetchAllData_catch r =
     (case r of
        Done st \<Rightarrow> Done st
      | Thrown msg st \<Rightarrow>
          Done ((page_emit (Toast toast_error ''Error al cargar datos'')
                  ((page_emit (ConsoleError ''Error fetching data:'' msg) st)
                     \<lparr> error := Some msg_error_al_cargar \<rparr>))
                \<lparr> sociosConDocumentos := [] \<rparr>))"

text \<open>\<open>finally { setLoading(false) }\<close> runs on both ways out of the block.\<close>

definition fetchAllData_finally :: "page outcome \<Rightarrow> page outcome" where
  "fetchAllData_finally r =
     (case r of
        Done st \<Rightarrow> Done (st\<lparr> loading := False \<rparr>)
      | Thrown msg st \<Rightarrow> Thrown msg (st\<lparr> loading := False \<rparr>))"

definition fetchAllData ::
  "(socio_row query_result \<times> string option query_result \<times> ingreso query_result) promise
     \<Rightarrow> page \<Rightarrow> page outcome" where
  "fetchAllData answer st =
     fetchAllData_finally
       (fetchAllData_catch (fetchAllData_try answer (st\<lparr> loading := True \<rparr>)))"


definition page_of :: "page outcome \<Rightarrow> page" where
  "page_of r = (case r of Done st \<Rightarrow> st | Thrown msg st \<Rightarrow> st)"

text \<open>
  \<open>handleUpdateLoteMedido\<close>. The handler runs up to the \<open>await\<close> of the update
  (\<open>handleUpdateLoteMedido_request\<close>: the guards and the optimistic update; it yields the
  socio found, when the request is sent) and resumes with the answer
  (\<open>handleUpdateLoteMedido_response\<close>: the success toast, or the \<open>catch\<close> with the revert).
  Both updates of the local list are functions of the list at that moment; each call of
  \<open>setSociosConDocumentos\<close> is also listed among the events, with the id and the value it
  writes.
\<close>

definition hasRequiredDocs :: "SocioConDocumentos \<Rightarrow> bool" where
  "hasRequiredDocs s =
     list_ex (\<lambda>doc. (tipo_documento doc = planos_de_ubicacion
                     \<or> tipo_documento doc = memoria_descriptiva)
                    \<and> truthy_str (link_documento doc)) (socio_documentos s)"

definition set_lote_medido ::
  "string \<Rightarrow> bool option \<Rightarrow> SocioConDocumentos list \<Rightarrow> SocioConDocumentos list" where
  "set_lote_medido socioId v =
     map (\<lambda>s. if socio_id s = socioId then s\<lparr> is_lote_medido := v \<rparr> else s)"

definition msg_accion_bloqueada :: string where
  "msg_accion_bloqueada = ''Acci'' @ [CHR 0xF3] @ ''n Bloqueada''"

definition update_error :: "unit query_result promise \<Rightarrow> string option" where
  "update_error answer = (case answer of Rejected msg \<Rightarrow> Some msg | Fulfilled r \<Rightarrow> qerror r)"

definition handleUpdateLoteMedido_request ::
  "bool \<Rightarrow> string \<Rightarrow> bool \<Rightarrow> page \<Rightarrow> page \<times> SocioConDocumentos option" where
  "handleUpdateLoteMedido_request isAdmin socioId newValue st =
     (if \<not> isAdmin then (page_emit (Toast toast_error ''Permiso denegado'') st, None)
      else
        (case find (\<lambda>s. socio_id s = socioId) (sociosConDocumentos st) of
           None \<Rightarrow> (st, None)
         | Some originalData \<Rightarrow>
             if \<not> newValue \<and> hasRequiredDocs originalData
             then (page_emit (Toast toast_warning msg_accion_bloqueada) st, None)
             else
               (page_emit (UpdateLoteMedido socioId newValue)
                  ((page_emit (SetLocalLoteMedido socioId (Some newValue)) st)
                   \<lparr> sociosConDocumentos :=
                       set_lote_medido socioId (Some newValue) (sociosConDocumentos st) \<rparr>),
                Some originalData)))"

definition handleUpdateLoteMedido_response ::
  "SocioConDocumentos \<Rightarrow> string \<Rightarrow> bool \<Rightarrow> unit query_result promise \<Rightarrow> page \<Rightarrow> page" where
  "handleUpdateLoteMedido_response originalData socioId newValue answer st =
     (case update_error answer of
        None \<Rightarrow> page_emit (Toast toast_success ''Estado de Lote Medido actualizado'') st
      | Some msg \<Rightarrow>
          (page_emit (SetLocalLoteMedido socioId (is_lote_medido originalData))
             (page_emit (Toast toast_error ''Error al actualizar'')
                (page_emit (ConsoleError ''Error updating lote medido:'' msg) st)))
          \<lparr> sociosConDocumentos :=
              set_lote_medido socioId (is_lote_medido originalData)
                (sociosConDocumentos st) \<rparr>)"

definition handleUpdateLoteMedido ::
  "bool \<Rightarrow> string \<Rightarrow> bool \<Rightarrow> unit query_result promise \<Rightarrow> page \<Rightarrow> page" where
  "handleUpdateLoteMedido isAdmin socioId newValue answer st =
     (case handleUpdateLoteMedido_request isAdmin socioId newValue st of
        (st1, None) \<Rightarrow> st1
      | (st1, Some originalData) \<Rightarrow>
          handleUpdateLoteMedido_response originalData socioId newValue answer st1)"

text \<open>The wording of the specification for the displayed flag, and the rows used below.\<close>

definition has_measurement_document :: "SocioConDocumentos \<Rightarrow> bool" where
  "has_measurement_document r =
     list_ex (\<lambda>doc. (tipo_documento doc = planos_de_ubicacion
                     \<or> tipo_documento doc = memoria_descriptiva)
                    \<and> link_documento doc \<noteq> None) (socio_documentos r)"

definition stored_flag :: "socio_row \<Rightarrow> bool" where
  "stored_flag socio = (case is_lote_medido socio of None \<Rightarrow> False | Some b \<Rightarrow> b)"

definition example_rows :: "socio_row list" where
  "example_rows =
     [\<lparr> socio_id = ''u1'', socio_dni = ''12345678'', socio_nombres = ''Ana'',
        socio_apellidoPaterno = ''Rojas'', socio_apellidoMaterno = ''Quispe'',
        socio_localidad = ''Centro'', socio_mz = Some ''B'', socio_lote = Some ''7'',
        is_lote_medido = Some False,
        socio_documentos =
          [\<lparr> doc_id = 1, tipo_documento = planos_de_ubicacion,
             link_documento = Some ''planos/12345678.pdf'', transaction_type = None \<rparr>,
           \<lparr> doc_id = 2, tipo_documento = comprobante_de_pago,
             link_documento = Some ''recibos/R-00001.pdf'', transaction_type = None \<rparr>] \<rparr>,
      \<lparr> socio_id = ''u2'', socio_dni = ''87654321'', socio_nombres = ''Luis'',
        socio_apellidoPaterno = ''Soto'', socio_apellidoMaterno = ''Vera'',
        socio_localidad = ''Norte'', socio_mz = None, socio_lote = None,
        is_lote_medido = None,
        socio_documentos =
          [\<lparr> doc_id = 3, tipo_documento = memoria_descriptiva,
             link_documento = None, transaction_type = None \<rparr>] \<rparr>]"

definition example_socios :: "socio_row query_result" where
  "example_socios = \<lparr> qdata = Some example_rows, qerror = None \<rparr>"

definition example_localidades :: "string option query_result" where
  "example_localidades =
     \<lparr> qdata = Some [Some ''Norte'', None, Some ''Centro'', Some ''Norte''], qerror = None \<rparr>"

definition example_ingreso_rows :: "ingreso list" where
  "example_ingreso_rows =
     [\<lparr> ingreso_dni = Some ''12345678'', ingreso_receipt_number = Some ''R-00001'',
        ingreso_transaction_type = Some ''Recibo de Pago'' \<rparr>]"

definition example_ingresos :: "ingreso query_result" where
  "example_ingresos = \<lparr> qdata = Some example_ingreso_rows, qerror = None \<rparr>"

definition denied_socios :: "socio_row query_result" where
  "denied_socios = \<lparr> qdata = None, qerror = Some ''permission denied'' \<rparr>"

definition first_page :: page where
  "first_page =
     \<lparr> sociosConDocumentos = [], loading = True, error = None, localidades = [],
       page_events = [] \<rparr>"

text \<open>Lists of socios shown on the page, used below.\<close>

definition shown_rows :: "SocioConDocumentos list" where
  "shown_rows =
     [\<lparr> socio_id = ''u1'', socio_dni = ''12345678'', socio_nombres = ''Ana'',
        socio_apellidoPaterno = ''Rojas'', socio_apellidoMaterno = ''Quispe'',
        socio_localidad = ''Centro'', socio_mz = Some ''B'', socio_lote = Some ''7'',
        is_lote_medido = Some True,
        socio_documentos =
          [\<lparr> doc_id = 1, tipo_documento = planos_de_ubicacion,
             link_documento = Some ''planos/12345678.pdf'', transaction_type = None \<rparr>],
        paymentInfo = \<lparr> status = Pagado, receipt_number = Some ''R-00001'' \<rparr> \<rparr>,
      \<lparr> socio_id = ''u2'', socio_dni = ''87654321'', socio_nombres = ''Luis'',
        socio_apellidoPaterno = ''Soto'', socio_apellidoMaterno = ''Vera'',
        socio_localidad = ''Norte'', socio_mz = None, socio_lote = None,
        is_lote_medido = Some False, socio_documentos = [],
        paymentInfo = \<lparr> status = No_Pagado, receipt_number = None \<rparr> \<rparr>]"

definition shown_page :: page where
  "shown_page =
     \<lparr> sociosConDocumentos = shown_rows, loading = False, error = None,
       localidades = [''Centro'', ''Norte''], page_events = [] \<rparr>"

definition twin_rows :: "SocioConDocumentos list" where
  "twin_rows =
     [\<lparr> socio_id = ''u2'', socio_dni = ''87654321'', socio_nombres = ''Luis'',
        socio_apellidoPaterno = ''Soto'', socio_apellidoMaterno = ''Vera'',
        socio_localidad = ''Norte'', socio_mz = None, socio_lote = None,
        is_lote_medido = Some False, socio_documentos = [],
        paymentInfo = \<lparr> status = No_Pagado, receipt_number = None \<rparr> \<rparr>,
      \<lparr> socio_id = ''u2'', socio_dni = ''87654321'', socio_nombres = ''Luis'',
        socio_apellidoPaterno = ''Soto'', socio_apellidoMaterno = ''Vera'',
        socio_localidad = ''Norte'', socio_mz = None, socio_lote = None,
        is_lote_medido = Some True, socio_documentos = [],
        paymentInfo = \<lparr> status = No_Pagado, receipt_number = None \<rparr> \<rparr>]"

definition twin_page :: page where
  "twin_page =
     \<lparr> sociosConDocumentos = twin_rows, loading = False, error = None,
       localidades = [''Norte''], page_events = [] \<rparr>"

section \<open>The generic data table\<close>



















section \<open>Properties\<close>

subsection \<open>C8: the observation fields never reach the receipt\<close>

text \<open>
  C8. The record handed to the receipt PDF generator is a function of the correlative, the
  loaded client and the five public form fields only: two submissions that agree on
  \<open>fecha_emision\<close>, \<open>monto\<close>, \<open>concepto\<close>, \<open>metodo_pago\<close> and \<open>numero_operacion\<close>
  hand over the same record, whatever their other fields; in particular, changing
  \<open>is_payment_observed\<close> and \<open>payment_observation_detail\<close> leaves it the same.
\<close>

theorem receiptData_ignores_observation:
  assumes "fecha_emision v = fecha_emision v'"
    and "monto v = monto v'"
    and "concepto v = concepto v'"
    and "metodo_pago v = metodo_pago v'"
    and "numero_operacion v = numero_operacion v'"
  shows "onSubmit_receiptData correlative clientData v
       = onSubmit_receiptData correlative clientData v'
     \<and> onSubmit_receiptData correlative clientData
         (v\<lparr> is_payment_observed := b, payment_observation_detail := d \<rparr>)
       = onSubmit_receiptData correlative clientData v"
  using assms by (simp add: onSubmit_receiptData_def split: option.splits)

theorem receiptData_ignores_observation_witness:
  "fecha_emision example_recibo = fecha_emision other_recibo
   \<and> monto example_recibo = monto other_recibo
   \<and> concepto example_recibo = concepto other_recibo
   \<and> metodo_pago example_recibo = metodo_pago other_recibo
   \<and> numero_operacion example_recibo = numero_operacion other_recibo
   \<and> recibo_dni example_recibo \<noteq> recibo_dni other_recibo
   \<and> client_name example_recibo \<noteq> client_name other_recibo
   \<and> is_payment_observed example_recibo \<noteq> is_payment_observed other_recibo
   \<and> onSubmit_receiptData ''R-00012'' (Some example_client) other_recibo
     = Some \<lparr> rd_correlative = ''R-00012'', rd_client_full_name = ''Ana Rojas'',
              rd_client_dni = ''12345678'', rd_fecha_emision = ''2025-01-15'',
              rd_monto = 250, rd_concepto = ''Cuota'', rd_metodo_pago = ''Efectivo'',
              rd_numero_operacion = [] \<rparr>"
proof -
  have agree: "fecha_emision example_recibo = fecha_emision other_recibo"
    "monto example_recibo = monto other_recibo"
    "concepto example_recibo = concepto other_recibo"
    "metodo_pago example_recibo = metodo_pago other_recibo"
    "numero_operacion example_recibo = numero_operacion other_recibo"
    by (simp_all add: example_recibo_def other_recibo_def)
  have differ: "recibo_dni example_recibo \<noteq> recibo_dni other_recibo"
    "client_name example_recibo \<noteq> client_name other_recibo"
    "is_payment_observed example_recibo \<noteq> is_payment_observed other_recibo"
    by (simp_all add: example_recibo_def other_recibo_def)
  have run: "onSubmit_receiptData ''R-00012'' (Some example_client) example_recibo
     = Some \<lparr> rd_correlative = ''R-00012'', rd_client_full_name = ''Ana Rojas'',
              rd_client_dni = ''12345678'', rd_fecha_emision = ''2025-01-15'',
              rd_monto = 250, rd_concepto = ''Cuota'', rd_metodo_pago = ''Efectivo'',
              rd_numero_operacion = [] \<rparr>"
    by (simp add: onSubmit_receiptData_def example_client_def example_recibo_def
        truthy_str_def)
  from receiptData_ignores_observation
    [OF agree, of "''R-00012''" "Some example_client" "''pago parcial''" True]
    agree differ run
  show ?thesis by simp
qed

subsection \<open>C4: the conditional requirement of the observation details\<close>

text \<open>
  \<open>trim\<close> leaves nothing exactly when every character is white space, so the test of the
  refinement is the specification's "absent, null or only white space".
\<close>

lemma js_trim_Nil_iff: "js_trim s = [] \<longleftrightarrow> list_all is_js_whitespace s"
proof -
  define xs where "xs = dropWhile is_js_whitespace s"
  have hd_xs: "xs \<noteq> [] \<Longrightarrow> \<not> is_js_whitespace (hd xs)"
    unfolding xs_def by (rule hd_dropWhile)
  have "dropWhile is_js_whitespace (rev xs) = [] \<longleftrightarrow> xs = []"
  proof
    assume "dropWhile is_js_whitespace (rev xs) = []"
    then have all: "\<forall>x \<in> set xs. is_js_whitespace x"
      by (simp add: dropWhile_eq_Nil_conv)
    show "xs = []"
    proof (rule ccontr)
      assume ne: "xs \<noteq> []"
      then have "hd xs \<in> set xs" by simp
      with all hd_xs [OF ne] show False by blast
    qed
  next
    assume "xs = []"
    then show "dropWhile is_js_whitespace (rev xs) = []" by simp
  qed
  moreover have "xs = [] \<longleftrightarrow> list_all is_js_whitespace s"
    unfolding xs_def by (simp add: dropWhile_eq_Nil_conv list_all_iff)
  ultimately show ?thesis
    unfolding js_trim_def xs_def by simp
qed

lemma issues_on_Nil: "issues_on p [] = []"
  by (simp add: issues_on_def)

lemma issues_on_single: "issues_on p [i] = (if path i = p then [i] else [])"
  by (simp add: issues_on_def)

lemma issues_on_append: "issues_on p (xs @ ys) = issues_on p xs @ issues_on p ys"
  by (simp add: issues_on_def)

lemma issues_on_min_check:
  "issues_on p (min_check n msg q s) = (if p = q then min_check n msg q s else [])"
  by (auto simp: min_check_def issues_on_Nil issues_on_single)

lemma issues_on_max_check:
  "issues_on p (max_check n msg q s) = (if p = q then max_check n msg q s else [])"
  by (auto simp: max_check_def issues_on_Nil issues_on_single)

lemma issues_on_z_string:
  assumes "\<And>s. issues_on p (checks s) = (if p = q then checks s else [])"
  shows "issues_on p (fst (z_string q checks v))
     = (if p = q then fst (z_string q checks v) else [])"
  using assms
  by (cases v) (auto simp: z_string_def invalid_type_issue_def issues_on_Nil issues_on_single)

lemma issues_on_required_text:
  "issues_on p (fst (required_text q m1 m2 v))
     = (if p = q then fst (required_text q m1 m2 v) else [])"
  unfolding required_text_def
  by (rule issues_on_z_string) (simp add: issues_on_append issues_on_min_check issues_on_max_check)

lemma issues_on_optional_nullable:
  assumes "issues_on p (fst (schema v)) = (if p = q then fst (schema v) else [])"
  shows "issues_on p (fst (optional_nullable schema v))
     = (if p = q then fst (optional_nullable schema v) else [])"
  using assms by (cases v) (simp_all add: optional_nullable_def issues_on_Nil)

lemma issues_on_optional_max:
  "issues_on p (fst (optional_max n msg q v))
     = (if p = q then fst (optional_max n msg q v) else [])"
  unfolding optional_max_def
  by (intro issues_on_optional_nullable issues_on_z_string issues_on_max_check)

lemma issues_on_optional_string:
  "issues_on p (fst (optional_string q v)) = (if p = q then fst (optional_string q v) else [])"
  unfolding optional_string_def
  by (intro issues_on_optional_nullable issues_on_z_string) (simp add: issues_on_Nil)

lemma issues_on_boolean_default:
  "issues_on p (fst (boolean_default q d v))
     = (if p = q then fst (boolean_default q d v) else [])"
  by (cases v) (auto simp: boolean_default_def invalid_type_issue_def issues_on_Nil issues_on_single)

lemma issues_on_dni_schema: "p \<noteq> ''dni'' \<Longrightarrow> issues_on p (fst (dni_schema v)) = []"
  unfolding dni_schema_def
  by (subst issues_on_z_string)
    (auto simp: issues_on_append issues_on_min_check issues_on_max_check
      issues_on_Nil issues_on_single)

lemma issues_on_edad_schema: "p \<noteq> ''edad'' \<Longrightarrow> issues_on p (fst (edad_schema v)) = []"
  by (cases v)
    (auto simp: edad_schema_def optional_nullable_def z_number_int_min0_def
      invalid_type_issue_def issues_on_Nil issues_on_single issues_on_append)

lemma issues_on_celular_schema:
  "p \<noteq> ''celular'' \<Longrightarrow> issues_on p (fst (celular_schema v)) = []"
  using issues_on_optional_max [of p 15 "''El celular es demasiado largo.''" "''celular''" v]
  by (auto simp: celular_schema_def issues_on_append issues_on_Nil issues_on_single
      split: prod.split option.split)

lemma issues_on_situacionEconomica_schema:
  "p \<noteq> ''situacionEconomica'' \<Longrightarrow> issues_on p (fst (situacionEconomica_schema v)) = []"
  by (cases v) (auto simp: situacionEconomica_schema_def issues_on_Nil issues_on_single)

lemmas issues_on_fields =
  issues_on_Nil issues_on_single issues_on_append issues_on_min_check
  issues_on_required_text issues_on_optional_max issues_on_optional_string
  issues_on_boolean_default issues_on_dni_schema issues_on_edad_schema
  issues_on_celular_schema issues_on_situacionEconomica_schema

lemma issues_on_fechaNacimiento_schema:
  "p \<noteq> ''fechaNacimiento'' \<Longrightarrow> issues_on p (fst (fechaNacimiento_schema v)) = []"
  unfolding fechaNacimiento_schema_def
  by (subst issues_on_z_string) (simp_all add: issues_on_min_check)

lemma issues_on_personalData_object:
  "issues_on ''observacion'' (fst (personalData_object input))
     = fst (optional_max 1000 msg_observacion_larga ''observacion'' (input ''observacion''))"
  "issues_on ''paymentObservationDetail'' (fst (personalData_object input))
     = fst (optional_max 1000 msg_detalle_largo ''paymentObservationDetail''
         (input ''paymentObservationDetail''))"
  unfolding personalData_object_def Let_def fst_conv
  by (simp_all add: issues_on_fields issues_on_fechaNacimiento_schema)

lemma issues_on_addressDataSchema:
  "issues_on ''observacion'' (fst (addressDataSchema input)) = []"
  "issues_on ''paymentObservationDetail'' (fst (addressDataSchema input)) = []"
  unfolding addressDataSchema_def Let_def fst_conv
  by (simp_all add: issues_on_fields)


lemma aborted_z_string: "snd (z_string p checks v) = None \<longleftrightarrow> \<not> is_string v"
  by (cases v) (simp_all add: z_string_def is_string_def)

lemma aborted_optional_nullable:
  "snd (optional_nullable schema v) = None
     \<longleftrightarrow> v \<noteq> JNull \<and> v \<noteq> JUndefined \<and> snd (schema v) = None"
  by (cases v) (simp_all add: optional_nullable_def)

lemma aborted_optional_max:
  "snd (optional_max n msg p v) = None \<longleftrightarrow> \<not> string_or_absent v"
  by (auto simp: optional_max_def aborted_optional_nullable aborted_z_string
      string_or_absent_def)

lemma aborted_optional_string:
  "snd (optional_string p v) = None \<longleftrightarrow> \<not> string_or_absent v"
  by (auto simp: optional_string_def aborted_optional_nullable aborted_z_string
      string_or_absent_def)

lemma aborted_boolean_default:
  "snd (boolean_default p d v) = None \<longleftrightarrow> \<not> boolean_or_absent v"
  by (cases v) (simp_all add: boolean_default_def boolean_or_absent_def)

lemma aborted_edad_schema: "snd (edad_schema v) = None \<longleftrightarrow> \<not> number_or_absent v"
  by (cases v)
    (simp_all add: edad_schema_def optional_nullable_def z_number_int_min0_def
      number_or_absent_def)

lemma aborted_celular_schema: "snd (celular_schema v) = None \<longleftrightarrow> \<not> string_or_absent v"
  using aborted_optional_max [of 15 "''El celular es demasiado largo.''" "''celular''" v]
  by (auto simp: celular_schema_def split: prod.splits option.splits)

lemma aborted_situacionEconomica_schema:
  "snd (situacionEconomica_schema v) = None
     \<longleftrightarrow> \<not> (v = JStr ''Pobre'' \<or> v = JStr ''Extremo Pobre'')"
  by (cases v) (simp_all add: situacionEconomica_schema_def)

lemmas aborted_fields =
  aborted_z_string aborted_optional_max aborted_optional_string aborted_boolean_default
  aborted_edad_schema aborted_celular_schema aborted_situacionEconomica_schema

lemma personalData_object_aborted:
  "snd (personalData_object input) = None \<longleftrightarrow> \<not> personal_typed input"
  unfolding personalData_object_def Let_def snd_conv personal_typed_def
  by (simp add: bind_eq_None_conv aborted_fields dni_schema_def required_text_def
      fechaNacimiento_schema_def)

lemma boolean_default_value:
  "snd (boolean_default p False v) = Some b \<Longrightarrow> b = (v = JBool True)"
  by (cases v) (auto simp: boolean_default_def)

lemma optional_max_value:
  "snd (optional_max n msg p v) = Some x \<Longrightarrow> detail_missing x = absent_null_or_blank v"
  by (cases v)
    (auto simp: optional_max_def optional_nullable_def z_string_def detail_missing_def
      absent_null_or_blank_def falsy_def js_trim_Nil_iff)

lemma personalData_object_value:
  assumes "snd (personalData_object input) = Some d"
  shows "isObservado d = (input ''isObservado'' = JBool True)"
    and "detail_missing (observacion d) = absent_null_or_blank (input ''observacion'')"
    and "isPaymentObserved d = (input ''isPaymentObserved'' = JBool True)"
    and "detail_missing (paymentObservationDetail d)
      = absent_null_or_blank (input ''paymentObservationDetail'')"
proof -
  from assms obtain a b c e where
    "snd (boolean_default ''isObservado'' False (input ''isObservado'')) = Some a"
    "snd (optional_max 1000 msg_observacion_larga ''observacion'' (input ''observacion''))
      = Some b"
    "snd (boolean_default ''isPaymentObserved'' False (input ''isPaymentObserved'')) = Some c"
    "snd (optional_max 1000 msg_detalle_largo ''paymentObservationDetail''
        (input ''paymentObservationDetail'')) = Some e"
    "isObservado d = a" "observacion d = b" "isPaymentObserved d = c"
    "paymentObservationDetail d = e"
    unfolding personalData_object_def Let_def snd_conv
    by (auto simp: bind_eq_Some_conv)
  then show "isObservado d = (input ''isObservado'' = JBool True)"
    and "detail_missing (observacion d) = absent_null_or_blank (input ''observacion'')"
    and "isPaymentObserved d = (input ''isPaymentObserved'' = JBool True)"
    and "detail_missing (paymentObservationDetail d)
      = absent_null_or_blank (input ''paymentObservationDetail'')"
    using boolean_default_value optional_max_value by blast+
qed


lemma personalDataSchema_issues:
  "fst (personalDataSchema input)
     = fst (personalData_object input)
       @ (if personal_typed input \<and> input ''isObservado'' = JBool True
             \<and> absent_null_or_blank (input ''observacion'')
          then [Issue custom ''observacion'' msg_observacion_requerida] else [])
       @ (if personal_typed input \<and> input ''isPaymentObserved'' = JBool True
             \<and> absent_null_or_blank (input ''paymentObservationDetail'')
          then [Issue custom ''paymentObservationDetail'' msg_detalle_requerido] else [])"
proof -
  obtain found r where pr: "personalData_object input = (found, r)"
    by (cases "personalData_object input")
  show ?thesis
  proof (cases r)
    case None
    with pr have "\<not> personal_typed input"
      using personalData_object_aborted [of input] by simp
    with None pr show ?thesis
      by (simp add: personalDataSchema_def)
  next
    case (Some d)
    with pr have d: "snd (personalData_object input) = Some d"
      by simp
    then have "personal_typed input"
      using personalData_object_aborted [of input] by simp
    with Some pr personalData_object_value [OF d] show ?thesis
      by (simp add: personalDataSchema_def superRefine_def)
  qed
qed

lemma formSchema_issues:
  "fst (formSchema input) = fst (personalDataSchema input) @ fst (addressDataSchema input)"
  by (simp add: formSchema_def Let_def)

lemma issues_on_observacion:
  "issues_on ''observacion'' (fst (formSchema input))
     = fst (optional_max 1000 msg_observacion_larga ''observacion'' (input ''observacion''))
       @ (if personal_typed input \<and> input ''isObservado'' = JBool True
             \<and> absent_null_or_blank (input ''observacion'')
          then [Issue custom ''observacion'' msg_observacion_requerida] else [])"
  by (simp add: formSchema_issues personalDataSchema_issues issues_on_append
      issues_on_personalData_object issues_on_addressDataSchema issues_on_single
      issues_on_Nil)

lemma issues_on_paymentObservationDetail:
  "issues_on ''paymentObservationDetail'' (fst (formSchema input))
     = fst (optional_max 1000 msg_detalle_largo ''paymentObservationDetail''
         (input ''paymentObservationDetail''))
       @ (if personal_typed input \<and> input ''isPaymentObserved'' = JBool True
             \<and> absent_null_or_blank (input ''paymentObservationDetail'')
          then [Issue custom ''paymentObservationDetail'' msg_detalle_requerido] else [])"
  by (simp add: formSchema_issues personalDataSchema_issues issues_on_append
      issues_on_personalData_object issues_on_addressDataSchema issues_on_single
      issues_on_Nil)

lemma optional_max_issues:
  "fst (optional_max 1000 msg p v)
     = (if too_long v then [Issue too_big p msg]
        else if string_or_absent v then []
        else [invalid_type_issue ''string'' p v])"
  by (cases v)
    (simp_all add: optional_max_def optional_nullable_def z_string_def max_check_def
      too_long_def string_or_absent_def is_string_def)

lemma member_issues_on: "i \<in> set xs \<longleftrightarrow> i \<in> set (issues_on (path i) xs)"
  by (auto simp: issues_on_def)


text \<open>An aborted parse has an issue.\<close>

lemma issue_if_aborted_z_string: "fst (z_string p checks v) = [] \<Longrightarrow> is_string v"
  by (cases v) (simp_all add: z_string_def is_string_def)

lemma issue_if_aborted_optional_max:
  "fst (optional_max n msg p v) = [] \<Longrightarrow> string_or_absent v"
  by (cases v)
    (simp_all add: optional_max_def optional_nullable_def z_string_def string_or_absent_def
      is_string_def)

lemma issue_if_aborted_boolean_default:
  "fst (boolean_default p d v) = [] \<Longrightarrow> boolean_or_absent v"
  by (cases v) (simp_all add: boolean_default_def boolean_or_absent_def)

lemma issue_if_aborted_edad_schema: "fst (edad_schema v) = [] \<Longrightarrow> number_or_absent v"
  by (cases v)
    (auto simp: edad_schema_def optional_nullable_def z_number_int_min0_def
      number_or_absent_def split: if_splits)

lemma issue_if_aborted_celular_schema: "fst (celular_schema v) = [] \<Longrightarrow> string_or_absent v"
  using issue_if_aborted_optional_max [of 15 "''El celular es demasiado largo.''" "''celular''" v]
  by (auto simp: celular_schema_def split: prod.splits option.splits)

lemma issue_if_aborted_situacionEconomica_schema:
  "fst (situacionEconomica_schema v) = []
     \<Longrightarrow> v = JStr ''Pobre'' \<or> v = JStr ''Extremo Pobre''"
  by (cases v) (auto simp: situacionEconomica_schema_def split: if_splits)

lemma issue_if_aborted_dni_schema: "fst (dni_schema v) = [] \<Longrightarrow> is_string v"
  unfolding dni_schema_def by (rule issue_if_aborted_z_string)

lemma issue_if_aborted_required_text:
  "fst (required_text p m1 m2 v) = [] \<Longrightarrow> is_string v"
  unfolding required_text_def by (rule issue_if_aborted_z_string)

lemma issue_if_aborted_fechaNacimiento_schema:
  "fst (fechaNacimiento_schema v) = [] \<Longrightarrow> is_string v"
  unfolding fechaNacimiento_schema_def by (rule issue_if_aborted_z_string)

lemma personalData_object_typed:
  assumes "fst (personalData_object input) = []"
  shows "personal_typed input"
  using assms
  unfolding personalData_object_def Let_def fst_conv personal_typed_def append_is_Nil_conv
  by (auto dest: issue_if_aborted_dni_schema issue_if_aborted_required_text
      issue_if_aborted_fechaNacimiento_schema issue_if_aborted_optional_max
      issue_if_aborted_boolean_default issue_if_aborted_edad_schema
      issue_if_aborted_celular_schema issue_if_aborted_situacionEconomica_schema)

lemma formSchema_passes:
  "fst (formSchema input) = []
     \<longleftrightarrow> fst (personalData_object input) = [] \<and> fst (addressDataSchema input) = []
       \<and> \<not> (input ''isObservado'' = JBool True
             \<and> absent_null_or_blank (input ''observacion''))
       \<and> \<not> (input ''isPaymentObserved'' = JBool True
             \<and> absent_null_or_blank (input ''paymentObservationDetail''))"
  using personalData_object_typed [of input]
  by (auto simp: formSchema_issues personalDataSchema_issues)

lemma flag_off_passes:
  assumes "fst (formSchema input) = []"
  shows "fst (formSchema (input(''isObservado'' := JBool False, ''observacion'' := JStr [])))
      = []"
    and "fst (formSchema (input(''isPaymentObserved'' := JBool False,
        ''paymentObservationDetail'' := JStr []))) = []"
proof -
  from assms have p: "fst (personalData_object input) = []"
    and a: "fst (addressDataSchema input) = []"
    and o: "\<not> (input ''isObservado'' = JBool True
             \<and> absent_null_or_blank (input ''observacion''))"
    and d: "\<not> (input ''isPaymentObserved'' = JBool True
             \<and> absent_null_or_blank (input ''paymentObservationDetail''))"
    by (simp_all add: formSchema_passes)
  have e: "fst (boolean_default q False (JBool False)) = []"
    "fst (optional_max 1000 msg q (JStr [])) = []" for q msg
    by (simp_all add: boolean_default_def optional_max_issues too_long_def
        string_or_absent_def is_string_def)
  from p have "fst (personalData_object
      (input(''isObservado'' := JBool False, ''observacion'' := JStr []))) = []"
    unfolding personalData_object_def Let_def fst_conv append_is_Nil_conv
    by (simp add: e)
  moreover from a have "fst (addressDataSchema
      (input(''isObservado'' := JBool False, ''observacion'' := JStr []))) = []"
    unfolding addressDataSchema_def Let_def fst_conv append_is_Nil_conv
    by simp
  ultimately show
    "fst (formSchema (input(''isObservado'' := JBool False, ''observacion'' := JStr [])))
      = []"
    using d by (simp add: formSchema_passes)
  from p have "fst (personalData_object
      (input(''isPaymentObserved'' := JBool False,
        ''paymentObservationDetail'' := JStr []))) = []"
    unfolding personalData_object_def Let_def fst_conv append_is_Nil_conv
    by (simp add: e)
  moreover from a have "fst (addressDataSchema
      (input(''isPaymentObserved'' := JBool False,
        ''paymentObservationDetail'' := JStr []))) = []"
    unfolding addressDataSchema_def Let_def fst_conv append_is_Nil_conv
    by simp
  ultimately show
    "fst (formSchema (input(''isPaymentObserved'' := JBool False,
        ''paymentObservationDetail'' := JStr []))) = []"
    using o by (simp add: formSchema_passes)
qed

text \<open>
  C4, as amended. For every object handed to the schema: validation carries the
  requirement issue on \<open>observacion\<close> exactly when every field of the personal data passes
  the check of its type, \<open>isObservado\<close> is true and \<open>observacion\<close> is absent, null or only
  white space; likewise for \<open>paymentObservationDetail\<close> under \<open>isPaymentObserved\<close>. Any issue
  at all on one of the two fields arises exactly in that case, or when the detail is
  longer than 1000 characters, or when it is neither a string nor null nor absent. With a
  flag that is not true, an empty detail has no issue; and a form that passes validation
  still passes it when a flag is set to false and its detail to the empty string.
\<close>

theorem formSchema_observation_rule:
  "(Issue custom ''observacion'' msg_observacion_requerida \<in> set (fst (formSchema input))
      \<longleftrightarrow> personal_typed input \<and> input ''isObservado'' = JBool True
          \<and> absent_null_or_blank (input ''observacion''))
   \<and> (Issue custom ''paymentObservationDetail'' msg_detalle_requerido
        \<in> set (fst (formSchema input))
      \<longleftrightarrow> personal_typed input \<and> input ''isPaymentObserved'' = JBool True
          \<and> absent_null_or_blank (input ''paymentObservationDetail''))
   \<and> (issues_on ''observacion'' (fst (formSchema input)) \<noteq> []
      \<longleftrightarrow> personal_typed input \<and> input ''isObservado'' = JBool True
            \<and> absent_null_or_blank (input ''observacion'')
          \<or> too_long (input ''observacion'')
          \<or> \<not> string_or_absent (input ''observacion''))
   \<and> (issues_on ''paymentObservationDetail'' (fst (formSchema input)) \<noteq> []
      \<longleftrightarrow> personal_typed input \<and> input ''isPaymentObserved'' = JBool True
            \<and> absent_null_or_blank (input ''paymentObservationDetail'')
          \<or> too_long (input ''paymentObservationDetail'')
          \<or> \<not> string_or_absent (input ''paymentObservationDetail''))
   \<and> (input ''isObservado'' \<noteq> JBool True \<and> input ''observacion'' = JStr []
      \<longrightarrow> issues_on ''observacion'' (fst (formSchema input)) = [])
   \<and> (input ''isPaymentObserved'' \<noteq> JBool True
        \<and> input ''paymentObservationDetail'' = JStr []
      \<longrightarrow> issues_on ''paymentObservationDetail'' (fst (formSchema input)) = [])
   \<and> (fst (formSchema input) = []
      \<longrightarrow> fst (formSchema (input(''isObservado'' := JBool False, ''observacion'' := JStr [])))
            = []
          \<and> fst (formSchema (input(''isPaymentObserved'' := JBool False,
                ''paymentObservationDetail'' := JStr []))) = [])"
proof -
  have empty: "\<not> too_long (JStr [])" "string_or_absent (JStr [])"
    by (simp_all add: too_long_def string_or_absent_def is_string_def)
  have a: "Issue custom ''observacion'' msg_observacion_requerida
        \<in> set (fst (formSchema input))
      \<longleftrightarrow> personal_typed input \<and> input ''isObservado'' = JBool True
          \<and> absent_null_or_blank (input ''observacion'')"
    by (subst member_issues_on)
      (simp add: issues_on_observacion optional_max_issues invalid_type_issue_def)
  have b: "Issue custom ''paymentObservationDetail'' msg_detalle_requerido
        \<in> set (fst (formSchema input))
      \<longleftrightarrow> personal_typed input \<and> input ''isPaymentObserved'' = JBool True
          \<and> absent_null_or_blank (input ''paymentObservationDetail'')"
    by (subst member_issues_on)
      (simp add: issues_on_paymentObservationDetail optional_max_issues
        invalid_type_issue_def)
  have c: "issues_on ''observacion'' (fst (formSchema input)) \<noteq> []
      \<longleftrightarrow> personal_typed input \<and> input ''isObservado'' = JBool True
            \<and> absent_null_or_blank (input ''observacion'')
          \<or> too_long (input ''observacion'')
          \<or> \<not> string_or_absent (input ''observacion'')"
    by (auto simp: issues_on_observacion optional_max_issues)
  have d: "issues_on ''paymentObservationDetail'' (fst (formSchema input)) \<noteq> []
      \<longleftrightarrow> personal_typed input \<and> input ''isPaymentObserved'' = JBool True
            \<and> absent_null_or_blank (input ''paymentObservationDetail'')
          \<or> too_long (input ''paymentObservationDetail'')
          \<or> \<not> string_or_absent (input ''paymentObservationDetail'')"
    by (auto simp: issues_on_paymentObservationDetail optional_max_issues)
  have e: "input ''isObservado'' \<noteq> JBool True \<and> input ''observacion'' = JStr []
      \<longrightarrow> issues_on ''observacion'' (fst (formSchema input)) = []"
    using c empty by auto
  have f: "input ''isPaymentObserved'' \<noteq> JBool True
        \<and> input ''paymentObservationDetail'' = JStr []
      \<longrightarrow> issues_on ''paymentObservationDetail'' (fst (formSchema input)) = []"
    using d empty by auto
  have g: "fst (formSchema input) = []
      \<longrightarrow> fst (formSchema (input(''isObservado'' := JBool False, ''observacion'' := JStr [])))
            = []
          \<and> fst (formSchema (input(''isPaymentObserved'' := JBool False,
                ''paymentObservationDetail'' := JStr []))) = []"
    using flag_off_passes [of input] by blast
  show ?thesis
    by (intro conjI) (rule a b c d e f g)+
qed

lemmas schema_eval =
  formSchema_def personalDataSchema_def personalData_object_def addressDataSchema_def
  superRefine_def Let_def dni_schema_def required_text_def fechaNacimiento_schema_def
  edad_schema_def z_number_int_min0_def celular_schema_def celular_refine_def
  situacionEconomica_schema_def optional_max_def optional_string_def optional_nullable_def
  boolean_default_def z_string_def min_check_def max_check_def invalid_type_issue_def
  getParsedType_def eight_digits_def only_digits_def is_digit_def is_integer_def
  below_zero_def detail_missing_def falsy_def js_trim_def is_js_whitespace_def
  personalData.extend_def SocioTitularFormValues.fields_def list_all_iff

lemmas typed_eval =
  personal_typed_def is_string_def string_or_absent_def number_or_absent_def
  boolean_or_absent_def absent_null_or_blank_def too_long_def is_js_whitespace_def

theorem formSchema_observation_rule_witness:
  "personal_typed observed_blank \<and> observed_blank ''isObservado'' = JBool True
   \<and> absent_null_or_blank (observed_blank ''observacion'')
   \<and> Issue custom ''observacion'' msg_observacion_requerida
       \<in> set (fst (formSchema observed_blank))
   \<and> example_input ''isObservado'' \<noteq> JBool True \<and> example_input ''observacion'' = JStr []
   \<and> issues_on ''observacion'' (fst (formSchema example_input)) = []
   \<and> example_input ''isPaymentObserved'' \<noteq> JBool True
   \<and> example_input ''paymentObservationDetail'' = JStr []
   \<and> issues_on ''paymentObservationDetail'' (fst (formSchema example_input)) = []
   \<and> formSchema example_input = ([], Some example_socio)
   \<and> fst (formSchema (example_input(''isObservado'' := JBool False,
         ''observacion'' := JStr []))) = []
   \<and> fst (formSchema (example_input(''isPaymentObserved'' := JBool False,
         ''paymentObservationDetail'' := JStr []))) = []"
proof -
  have t: "personal_typed observed_blank" "observed_blank ''isObservado'' = JBool True"
    "absent_null_or_blank (observed_blank ''observacion'')"
    by (simp_all add: observed_blank_def example_input_def typed_eval)
  have o: "example_input ''isObservado'' \<noteq> JBool True"
    "example_input ''observacion'' = JStr []"
    "example_input ''isPaymentObserved'' \<noteq> JBool True"
    "example_input ''paymentObservationDetail'' = JStr []"
    by (simp_all add: example_input_def)
  have p: "formSchema example_input = ([], Some example_socio)"
    by (simp add: example_input_def example_socio_def schema_eval)
  note blank = formSchema_observation_rule [of observed_blank]
  note filled = formSchema_observation_rule [of example_input]
  from blank t have i: "Issue custom ''observacion'' msg_observacion_requerida
       \<in> set (fst (formSchema observed_blank))"
    by simp
  from filled o have n: "issues_on ''observacion'' (fst (formSchema example_input)) = []"
    "issues_on ''paymentObservationDetail'' (fst (formSchema example_input)) = []"
    by simp_all
  from filled p have c:
    "fst (formSchema (example_input(''isObservado'' := JBool False,
         ''observacion'' := JStr []))) = []"
    "fst (formSchema (example_input(''isPaymentObserved'' := JBool False,
         ''paymentObservationDetail'' := JStr []))) = []"
    by simp_all
  show ?thesis
    by (intro conjI) (rule t o p i n c)+
qed

text \<open>
  C4 as first stated fails in both directions. An observation of 1001 letters on a socio
  who is not observed is rejected, with an issue on \<open>observacion\<close>, by the length limit of
  the field. And a form marked as observed, with an empty observation, whose economic
  situation is still \<open>undefined\<close>, the default of the form, is rejected with no issue on
  \<open>observacion\<close>: the object is aborted by the check of \<open>situacionEconomica\<close> and the
  refinement does not run.
\<close>

theorem observacion_issue_without_flag:
  "long_unobserved ''isObservado'' = JBool False
   \<and> \<not> absent_null_or_blank (long_unobserved ''observacion'')
   \<and> fst (formSchema long_unobserved)
       = [Issue too_big ''observacion'' msg_observacion_larga]
   \<and> observed_unchosen ''isObservado'' = JBool True
   \<and> observed_unchosen ''observacion'' = JStr []
   \<and> absent_null_or_blank (observed_unchosen ''observacion'')
   \<and> observed_unchosen ''situacionEconomica'' = JUndefined
   \<and> formSchema observed_unchosen
       = ([Issue invalid_type ''situacionEconomica'' msg_situacion_requerida], None)"
proof -
  have l: "long_unobserved ''isObservado'' = JBool False"
    "\<not> absent_null_or_blank (long_unobserved ''observacion'')"
    by (simp_all add: long_unobserved_def example_input_def typed_eval list_all_iff)
  have u: "observed_unchosen ''isObservado'' = JBool True"
    "observed_unchosen ''observacion'' = JStr []"
    "absent_null_or_blank (observed_unchosen ''observacion'')"
    "observed_unchosen ''situacionEconomica'' = JUndefined"
    by (simp_all add: observed_unchosen_def example_input_def defaultValues_def typed_eval)
  have a: "fst (formSchema long_unobserved)
       = [Issue too_big ''observacion'' msg_observacion_larga]"
    by (simp add: long_unobserved_def example_input_def schema_eval)
  have b: "formSchema observed_unchosen
       = ([Issue invalid_type ''situacionEconomica'' msg_situacion_requerida], None)"
    by (simp add: observed_unchosen_def example_input_def defaultValues_def schema_eval)
  show ?thesis
    by (intro conjI) (rule l u a b)+
qed

subsection \<open>C1: the order of the three providers\<close>

lemma events_emit: "events (emit ev s) = events s @ [ev]"
  and form_emit: "form (emit ev s) = form s"
  and dataFound_emit: "dataFound (emit ev s) = dataFound s"
  by (simp_all add: emit_def)

lemma events_setValue: "events (setValue f v s) = events s"
  and dataFound_setValue: "dataFound (setValue f v s) = dataFound s"
  and form_setValue: "form (setValue f v s) = (form s)(f := v)"
  by (simp_all add: setValue_def)

lemma events_fill: "events (fill f v s) = events s"
  and dataFound_fill: "dataFound (fill f v s) = dataFound s"
  by (simp_all add: fill_def events_setValue dataFound_setValue)

lemma form_fill_kept: "truthy_str (form s g) \<Longrightarrow> form (fill f v s) g = form s g"
  by (auto simp: fill_def watch_def form_setValue)

lemma queried_append: "queried (xs @ ys) = queried xs @ queried ys"
  by (induction xs rule: queried.induct) simp_all

lemmas lookup_simps =
  events_emit form_emit dataFound_emit events_setValue dataFound_setValue
  events_fill dataFound_fill queried_append

lemma queried_primary:
  "queried (events (catch_log l (primary_try e p d s))) =
     queried (events s) @ (if truthy_str (VITE_CONSULTAS_PERU_API_TOKEN e) then [Primary] else [])"
  by (simp add: primary_try_def catch_log_def lookup_simps split: http.split option.split)

lemma queried_secondary:
  "queried (events (catch_log l (secondary_try e p d s))) =
     queried (events s) @ (if truthy_str (VITE_MIAPI_CLOUD_API_TOKEN e) then [Secondary] else [])"
  by (simp add: secondary_try_def catch_log_def Let_def lookup_simps
      split: http.split option.split)

lemma queried_tertiary:
  "queried (events (catch_log l (tertiary_try e p d s))) =
     queried (events s) @ (if truthy_str (VITE_CONSULTADATOS_TOKEN e) then [Tertiary] else [])"
  by (simp add: tertiary_try_def catch_log_def lookup_simps split: http.split option.split)

lemma form_secondary_kept:
  "truthy_str (form s f) \<Longrightarrow> form (catch_log l (secondary_try e p d s)) f = form s f"
  by (simp add: secondary_try_def catch_log_def Let_def form_emit form_fill_kept
      split: http.split option.split)

lemma form_tertiary_kept:
  "truthy_str (form s f) \<Longrightarrow> form (catch_log l (tertiary_try e p d s)) f = form s f"
  by (simp add: tertiary_try_def catch_log_def form_emit form_fill_kept
      split: http.split option.split)

lemma queried_after_primary:
  "queried (events (after_primary e p d frm)) =
     (if truthy_str (VITE_CONSULTAS_PERU_API_TOKEN e) then [Primary] else [])"
  by (simp add: after_primary_def queried_primary)

lemma queried_after_secondary:
  "queried (events (after_secondary e p d frm)) =
     queried (events (after_primary e p d frm))
     @ (if (\<not> dataFound (after_primary e p d frm) \<or> checkMissingFields (after_primary e p d frm))
           \<and> truthy_str (VITE_MIAPI_CLOUD_API_TOKEN e)
        then [Secondary] else [])"
  by (simp add: after_secondary_def Let_def queried_secondary)

lemma queried_after_tertiary:
  "queried (events (after_tertiary e p d frm)) =
     queried (events (after_secondary e p d frm))
     @ (if (\<not> dataFound (after_secondary e p d frm)
            \<or> checkMissingFields (after_secondary e p d frm))
           \<and> truthy_str (VITE_CONSULTADATOS_TOKEN e)
        then [Tertiary] else [])"
  by (simp add: after_tertiary_def Let_def queried_tertiary)

lemma lookup_result_valid:
  "length d = 8 \<Longrightarrow>
   queried (events (lookup_result (fetchReniecDataAndPopulate e p d frm)))
     = queried (events (after_tertiary e p d frm))
   \<and> form (lookup_result (fetchReniecDataAndPopulate e p d frm))
     = form (after_tertiary e p d frm)"
  by (auto simp: fetchReniecDataAndPopulate_def lookup_result_def Let_def lookup_simps)

lemma queried_by_valid:
  assumes "length d = 8"
  shows "queried_by e p d frm =
      (if truthy_str (VITE_CONSULTAS_PERU_API_TOKEN e) then [Primary] else [])
      @ (if (\<not> dataFound (after_primary e p d frm)
             \<or> checkMissingFields (after_primary e p d frm))
            \<and> truthy_str (VITE_MIAPI_CLOUD_API_TOKEN e)
         then [Secondary] else [])
      @ (if (\<not> dataFound (after_secondary e p d frm)
             \<or> checkMissingFields (after_secondary e p d frm))
            \<and> truthy_str (VITE_CONSULTADATOS_TOKEN e)
         then [Tertiary] else [])"
  using lookup_result_valid [OF assms, of e p frm]
  by (simp add: queried_by_def queried_after_tertiary queried_after_secondary
      queried_after_primary)

text \<open>
  C1, as amended. For a DNI of eight characters: the providers are queried in the order
  primary, secondary, tertiary, each at most once; the primary one is queried exactly when
  its token is configured, and then it is the first; the secondary one only if the primary
  attempt found no data or left one of the eight fields empty; the tertiary one only if
  that still holds after the secondary attempt; and neither the secondary nor the tertiary
  attempt changes a field that was not empty when the attempt began.
\<close>

theorem lookup_fallback_order:
  assumes "length dni' = 8"
  shows
  "subseq (queried_by e p dni' frm) [Primary, Secondary, Tertiary]
   \<and> (Primary \<in> set (queried_by e p dni' frm)
        \<longleftrightarrow> truthy_str (VITE_CONSULTAS_PERU_API_TOKEN e))
   \<and> (truthy_str (VITE_CONSULTAS_PERU_API_TOKEN e) \<longrightarrow> hd (queried_by e p dni' frm) = Primary)
   \<and> (Secondary \<in> set (queried_by e p dni' frm)
        \<longrightarrow> \<not> dataFound (after_primary e p dni' frm)
            \<or> checkMissingFields (after_primary e p dni' frm))
   \<and> (Tertiary \<in> set (queried_by e p dni' frm)
        \<longrightarrow> \<not> dataFound (after_secondary e p dni' frm)
            \<or> checkMissingFields (after_secondary e p dni' frm))
   \<and> (\<forall>f. truthy_str (form (after_primary e p dni' frm) f)
        \<longrightarrow> form (after_secondary e p dni' frm) f = form (after_primary e p dni' frm) f)
   \<and> (\<forall>f. truthy_str (form (after_secondary e p dni' frm) f)
        \<longrightarrow> form (after_tertiary e p dni' frm) f = form (after_secondary e p dni' frm) f)
   \<and> form (lookup_result (fetchReniecDataAndPopulate e p dni' frm))
        = form (after_tertiary e p dni' frm)"
proof -
  note asked = queried_by_valid [OF assms, of e p frm]
  have order: "subseq (queried_by e p dni' frm) [Primary, Secondary, Tertiary]"
    unfolding asked by simp
  have first: "Primary \<in> set (queried_by e p dni' frm)
      \<longleftrightarrow> truthy_str (VITE_CONSULTAS_PERU_API_TOKEN e)"
    unfolding asked by simp
  have head: "truthy_str (VITE_CONSULTAS_PERU_API_TOKEN e)
      \<longrightarrow> hd (queried_by e p dni' frm) = Primary"
    unfolding asked by simp
  have second: "Secondary \<in> set (queried_by e p dni' frm)
      \<longrightarrow> \<not> dataFound (after_primary e p dni' frm)
          \<or> checkMissingFields (after_primary e p dni' frm)"
    unfolding asked by (simp split: if_splits)
  have third: "Tertiary \<in> set (queried_by e p dni' frm)
      \<longrightarrow> \<not> dataFound (after_secondary e p dni' frm)
          \<or> checkMissingFields (after_secondary e p dni' frm)"
    unfolding asked by (simp split: if_splits)
  have kept2: "\<forall>f. truthy_str (form (after_primary e p dni' frm) f)
      \<longrightarrow> form (after_secondary e p dni' frm) f = form (after_primary e p dni' frm) f"
    by (simp add: after_secondary_def Let_def form_secondary_kept)
  have kept3: "\<forall>f. truthy_str (form (after_secondary e p dni' frm) f)
      \<longrightarrow> form (after_tertiary e p dni' frm) f = form (after_secondary e p dni' frm) f"
    by (simp add: after_tertiary_def Let_def form_tertiary_kept)
  from order first head second third kept2 kept3 lookup_result_valid [OF assms, of e p frm]
  show ?thesis by blast
qed

theorem lookup_fallback_order_witness:
  "length ''12345678'' = 8
   \<and> subseq (queried_by all_tokens example_providers ''12345678'' empty_form)
        [Primary, Secondary, Tertiary]
   \<and> queried_by all_tokens example_providers ''12345678'' empty_form = [Primary, Secondary]
   \<and> form (after_secondary all_tokens example_providers ''12345678'' empty_form) Nombres
        = Some ''ANA''"
proof -
  have len: "length ''12345678'' = 8" by simp
  have run: "queried_by all_tokens example_providers ''12345678'' empty_form
      = [Primary, Secondary]"
    by (simp add: all_tokens_def queried_by_def fetchReniecDataAndPopulate_def lookup_result_def Let_def
      after_tertiary_def after_secondary_def after_primary_def catch_log_def
      primary_try_def secondary_try_def tertiary_try_def example_providers_def
      empty_form_def truthy_str_def emit_def setValue_def fill_def watch_def or_empty_def
      checkMissingFields_def fieldsToCheck_def surnames_of_def nth_or_empty_def
      domicilio_field_def)
  have kept: "form (after_primary all_tokens example_providers ''12345678'' empty_form) Nombres
      = Some ''ANA''"
    by (simp add: all_tokens_def queried_by_def fetchReniecDataAndPopulate_def lookup_result_def Let_def
      after_tertiary_def after_secondary_def after_primary_def catch_log_def
      primary_try_def secondary_try_def tertiary_try_def example_providers_def
      empty_form_def truthy_str_def emit_def setValue_def fill_def watch_def or_empty_def
      checkMissingFields_def fieldsToCheck_def surnames_of_def nth_or_empty_def
      domicilio_field_def)
  from lookup_fallback_order [OF len, of all_tokens example_providers empty_form] len run kept
  show ?thesis by (simp add: truthy_str_def)
qed

text \<open>
  C1 as first stated fails: with no token for the primary provider the request to it is
  never sent, and the first provider queried is the secondary one.
\<close>

theorem primary_not_queried_without_token:
  "queried_by no_primary_token example_providers ''12345678'' empty_form = [Secondary]"
  by (simp add: no_primary_token_def queried_by_def fetchReniecDataAndPopulate_def lookup_result_def Let_def
      after_tertiary_def after_secondary_def after_primary_def catch_log_def
      primary_try_def secondary_try_def tertiary_try_def example_providers_def
      empty_form_def truthy_str_def emit_def setValue_def fill_def watch_def or_empty_def
      checkMissingFields_def fieldsToCheck_def surnames_of_def nth_or_empty_def
      domicilio_field_def)

subsection \<open>C2: documents override the stored flag\<close>

lemma tag_document_fields:
  "tipo_documento (tag_document receipts doc) = tipo_documento doc"
  "link_documento (tag_document receipts doc) = link_documento doc"
  by (simp_all add: tag_document_def)

lemma keep_document_link: "keep_document receipts doc \<Longrightarrow> truthy_str (link_documento doc)"
  by (simp add: keep_document_def split: if_splits)

lemma processSocio_fields:
  "socio_id (processSocio byDni receipts socio) = socio_id socio"
  "socio_documentos (processSocio byDni receipts socio)
     = map (tag_document receipts) (filter (keep_document receipts) (socio_documentos socio))"
  "is_lote_medido (processSocio byDni receipts socio)
     = Some (has_document planos_de_ubicacion (socio_documentos (processSocio byDni receipts socio))
             \<or> has_document memoria_descriptiva (socio_documentos (processSocio byDni receipts socio))
             \<or> stored_flag socio)"
  by (simp_all add: processSocio_def Let_def socio_row.defs SocioConDocumentos.defs stored_flag_def)

lemma processSocio_links:
  "doc \<in> set (socio_documentos (processSocio byDni receipts socio))
     \<Longrightarrow> truthy_str (link_documento doc)"
  by (auto simp: processSocio_fields tag_document_fields keep_document_link)

lemma measurement_document_iff:
  assumes "\<And>doc. doc \<in> set docs \<Longrightarrow> truthy_str (link_documento doc)"
  shows "list_ex (\<lambda>doc. (tipo_documento doc = planos_de_ubicacion
                          \<or> tipo_documento doc = memoria_descriptiva)
                         \<and> link_documento doc \<noteq> None) docs
     \<longleftrightarrow> has_document planos_de_ubicacion docs \<or> has_document memoria_descriptiva docs"
proof -
  have truthy: "\<And>v. truthy_str v \<Longrightarrow> v \<noteq> None"
    by (auto simp: truthy_str_def split: option.splits)
  have "\<And>doc. doc \<in> set docs \<Longrightarrow> link_documento doc \<noteq> None"
    by (rule truthy) (rule assms)
  with assms show ?thesis
    unfolding has_document_def list_ex_iff by blast
qed

lemma processSocio_measured:
  "is_lote_medido (processSocio byDni receipts socio)
     = Some (has_measurement_document (processSocio byDni receipts socio) \<or> stored_flag socio)"
  unfolding has_measurement_document_def
  by (subst measurement_document_iff) (simp_all add: processSocio_links processSocio_fields(3))

lemma keep_document_measurement:
  assumes "tipo_documento doc = planos_de_ubicacion \<or> tipo_documento doc = memoria_descriptiva"
  shows "keep_document receipts doc \<longleftrightarrow> truthy_str (link_documento doc)"
  using assms
  by (auto simp: keep_document_def allowedDocumentTypes_def planos_de_ubicacion_def
      memoria_descriptiva_def comprobante_de_pago_def)

lemma filtered_measurement_document:
  "list_ex (\<lambda>doc. (tipo_documento doc = planos_de_ubicacion
                    \<or> tipo_documento doc = memoria_descriptiva)
                   \<and> link_documento doc \<noteq> None)
     (map (tag_document receipts) (filter (keep_document receipts) docs))
   \<longleftrightarrow> (\<exists>doc \<in> set docs. (tipo_documento doc = planos_de_ubicacion
                              \<or> tipo_documento doc = memoria_descriptiva)
                             \<and> truthy_str (link_documento doc))"
proof -
  have truthy: "\<And>v. truthy_str v \<Longrightarrow> v \<noteq> None"
    by (auto simp: truthy_str_def split: option.splits)
  show ?thesis
    unfolding list_ex_iff
  proof
    assume "\<exists>x \<in> set (map (tag_document receipts) (filter (keep_document receipts) docs)).
        (tipo_documento x = planos_de_ubicacion \<or> tipo_documento x = memoria_descriptiva)
        \<and> link_documento x \<noteq> None"
    then obtain doc where doc: "doc \<in> set docs" "keep_document receipts doc"
      and tipo: "tipo_documento doc = planos_de_ubicacion
          \<or> tipo_documento doc = memoria_descriptiva"
      by (auto simp: tag_document_fields)
    from doc(2) have "truthy_str (link_documento doc)" by (rule keep_document_link)
    with doc(1) tipo show "\<exists>doc \<in> set docs.
        (tipo_documento doc = planos_de_ubicacion \<or> tipo_documento doc = memoria_descriptiva)
        \<and> truthy_str (link_documento doc)"
      by blast
  next
    assume "\<exists>doc \<in> set docs.
        (tipo_documento doc = planos_de_ubicacion \<or> tipo_documento doc = memoria_descriptiva)
        \<and> truthy_str (link_documento doc)"
    then obtain doc where doc: "doc \<in> set docs"
      and tipo: "tipo_documento doc = planos_de_ubicacion
          \<or> tipo_documento doc = memoria_descriptiva"
      and link: "truthy_str (link_documento doc)"
      by blast
    from tipo link have "keep_document receipts doc"
      by (simp add: keep_document_measurement)
    with doc have "tag_document receipts doc
        \<in> set (map (tag_document receipts) (filter (keep_document receipts) docs))"
      by simp
    moreover have "(tipo_documento (tag_document receipts doc) = planos_de_ubicacion
          \<or> tipo_documento (tag_document receipts doc) = memoria_descriptiva)
        \<and> link_documento (tag_document receipts doc) \<noteq> None"
      using tipo truthy [OF link] by (simp add: tag_document_fields)
    ultimately show "\<exists>x \<in> set (map (tag_document receipts)
          (filter (keep_document receipts) docs)).
        (tipo_documento x = planos_de_ubicacion \<or> tipo_documento x = memoria_descriptiva)
        \<and> link_documento x \<noteq> None"
      by blast
  qed
qed

lemma fetchAllData_rows:
  assumes "qdata sociosRes = Some socios" and "qdata ingresosRes = Some ings"
  shows "sociosConDocumentos
           (page_of (fetchAllData (Fulfilled (sociosRes, localidadesRes, ingresosRes)) st))
     = (if qerror sociosRes = None \<and> qerror localidadesRes = None
           \<and> qerror ingresosRes = None \<and> qdata localidadesRes \<noteq> None
        then map (processSocio (ingresosByDni ings) (receiptTransactionTypeMap ings)) socios
        else [])"
  using assms
  by (auto simp: fetchAllData_def fetchAllData_finally_def fetchAllData_catch_def
      fetchAllData_try_def Let_def page_emit_def page_of_def split: option.splits)

text \<open>
  C2. When the three queries succeed, \<open>fetchAllData\<close> puts one row on the page for each
  row of the answer, and otherwise none. A row on the page has the id of the row of the
  same position in the answer and, as documents, those of that row that pass the filter;
  one of these is a plan or a descriptive memory with a link exactly when the row of the
  answer holds such a document with a link that is not empty. The \<open>is_lote_medido\<close> shown
  is true when there is such a document, whatever the stored flag, and otherwise the
  stored flag, with \<open>null\<close> read as false.
\<close>

theorem displayed_is_lote_medido:
  assumes "qdata sociosRes = Some socios" and "qdata ingresosRes = Some ings"
  shows
  "(qerror sociosRes = None \<and> qerror localidadesRes = None \<and> qerror ingresosRes = None
      \<and> qdata localidadesRes \<noteq> None
     \<longrightarrow> length (sociosConDocumentos (page_of (fetchAllData
            (Fulfilled (sociosRes, localidadesRes, ingresosRes)) st))) = length socios)
   \<and> (k < length (sociosConDocumentos (page_of (fetchAllData
            (Fulfilled (sociosRes, localidadesRes, ingresosRes)) st)))
     \<longrightarrow> k < length socios
        \<and> socio_id (sociosConDocumentos (page_of (fetchAllData
            (Fulfilled (sociosRes, localidadesRes, ingresosRes)) st)) ! k)
          = socio_id (socios ! k)
        \<and> socio_documentos (sociosConDocumentos (page_of (fetchAllData
            (Fulfilled (sociosRes, localidadesRes, ingresosRes)) st)) ! k)
          = map (tag_document (receiptTransactionTypeMap ings))
              (filter (keep_document (receiptTransactionTypeMap ings))
                 (socio_documentos (socios ! k)))
        \<and> (has_measurement_document (sociosConDocumentos (page_of (fetchAllData
              (Fulfilled (sociosRes, localidadesRes, ingresosRes)) st)) ! k)
           \<longleftrightarrow> (\<exists>doc \<in> set (socio_documentos (socios ! k)).
                 (tipo_documento doc = planos_de_ubicacion
                  \<or> tipo_documento doc = memoria_descriptiva)
                 \<and> truthy_str (link_documento doc)))
        \<and> is_lote_medido (sociosConDocumentos (page_of (fetchAllData
            (Fulfilled (sociosRes, localidadesRes, ingresosRes)) st)) ! k)
          = Some (has_measurement_document (sociosConDocumentos (page_of (fetchAllData
                    (Fulfilled (sociosRes, localidadesRes, ingresosRes)) st)) ! k)
                  \<or> stored_flag (socios ! k)))"
proof -
  let ?rows = "sociosConDocumentos
      (page_of (fetchAllData (Fulfilled (sociosRes, localidadesRes, ingresosRes)) st))"
  let ?row = "processSocio (ingresosByDni ings) (receiptTransactionTypeMap ings)"
  note rows = fetchAllData_rows [OF assms, of localidadesRes st]
  have len: "qerror sociosRes = None \<and> qerror localidadesRes = None
      \<and> qerror ingresosRes = None \<and> qdata localidadesRes \<noteq> None
      \<longrightarrow> length ?rows = length socios"
    by (simp add: rows)
  have row: "k < length ?rows \<longrightarrow> k < length socios \<and> ?rows ! k = ?row (socios ! k)"
    by (simp add: rows)
  have docs: "has_measurement_document (?row socio)
      \<longleftrightarrow> (\<exists>doc \<in> set (socio_documentos socio).
            (tipo_documento doc = planos_de_ubicacion
             \<or> tipo_documento doc = memoria_descriptiva)
            \<and> truthy_str (link_documento doc))" for socio
    unfolding has_measurement_document_def processSocio_fields(2)
    by (rule filtered_measurement_document)
  from len row show ?thesis
    by (auto simp: processSocio_fields(1,2) processSocio_measured docs)
qed

lemmas page_eval =
  fetchAllData_def fetchAllData_finally_def fetchAllData_catch_def
  fetchAllData_try_def Let_def page_emit_def page_of_def example_socios_def
  example_localidades_def example_ingresos_def example_ingreso_rows_def denied_socios_def
  example_rows_def first_page_def processSocio_def socio_row.defs SocioConDocumentos.defs
  keep_document_def tag_document_def has_document_def allowedDocumentTypes_def
  validTransactionTypes_def planos_de_ubicacion_def memoria_descriptiva_def
  comprobante_de_pago_def truthy_str_def serieCorrelativo_def
  receiptTransactionTypeMap_def add_receipt_type_def ingresosByDni_def add_by_dni_def
  paymentInfo_of_def has_measurement_document_def stored_flag_def

theorem displayed_is_lote_medido_witness:
  "qdata example_socios = Some example_rows
   \<and> qdata example_ingresos = Some example_ingreso_rows
   \<and> qerror example_socios = None \<and> qerror example_localidades = None
   \<and> qerror example_ingresos = None \<and> qdata example_localidades \<noteq> None
   \<and> length (sociosConDocumentos (page_of (fetchAllData
         (Fulfilled (example_socios, example_localidades, example_ingresos)) first_page)))
       = length example_rows
   \<and> length example_rows = 2
   \<and> stored_flag (example_rows ! 0) = False
   \<and> is_lote_medido (sociosConDocumentos (page_of (fetchAllData
         (Fulfilled (example_socios, example_localidades, example_ingresos)) first_page)) ! 0)
       = Some True
   \<and> stored_flag (example_rows ! 1) = False
   \<and> is_lote_medido (sociosConDocumentos (page_of (fetchAllData
         (Fulfilled (example_socios, example_localidades, example_ingresos)) first_page)) ! 1)
       = Some False"
proof -
  have q: "qdata example_socios = Some example_rows"
    and i: "qdata example_ingresos = Some example_ingreso_rows"
    and ok: "qerror example_socios = None" "qerror example_localidades = None"
      "qerror example_ingresos = None" "qdata example_localidades \<noteq> None"
    by (simp_all add: example_socios_def example_ingresos_def example_localidades_def)
  have two: "length example_rows = 2"
    by (simp add: example_rows_def)
  have flags: "stored_flag (example_rows ! 0) = False" "stored_flag (example_rows ! 1) = False"
    by (simp_all add: example_rows_def stored_flag_def)
  have linked: "\<exists>doc \<in> set (socio_documentos (example_rows ! 0)).
      (tipo_documento doc = planos_de_ubicacion \<or> tipo_documento doc = memoria_descriptiva)
      \<and> truthy_str (link_documento doc)"
    by (simp add: example_rows_def truthy_str_def)
  have unlinked: "\<not> (\<exists>doc \<in> set (socio_documentos (example_rows ! 1)).
      (tipo_documento doc = planos_de_ubicacion \<or> tipo_documento doc = memoria_descriptiva)
      \<and> truthy_str (link_documento doc))"
    by (simp add: example_rows_def truthy_str_def)
  from displayed_is_lote_medido [OF q i, of example_localidades first_page 0]
    displayed_is_lote_medido [OF q i, of example_localidades first_page 1]
    q i ok two flags linked unlinked
  show ?thesis by simp
qed

subsection \<open>C5: the optimistic update and its revert\<close>

lemma find_distinct_id:
  assumes "distinct (map socio_id xs)"
    and "find (\<lambda>s. socio_id s = i) xs = Some orig"
    and "s \<in> set xs" and "socio_id s = i"
  shows "s = orig"
proof -
  from assms(2) obtain k where "k < length xs" and "xs ! k = orig" and "socio_id orig = i"
    unfolding find_Some_iff by blast
  then have "orig \<in> set xs" and "socio_id orig = i" by auto
  moreover from assms(1) have "inj_on socio_id (set xs)"
    by (simp add: distinct_map)
  ultimately show ?thesis using assms(3,4) by (metis inj_onD)
qed

lemma set_lote_medido_flag:
  assumes "s \<in> set (set_lote_medido i v xs)" and "socio_id s = i"
  shows "is_lote_medido s = v"
proof -
  from assms(1) obtain x where x: "x \<in> set xs"
    and s: "s = (if socio_id x = i then x\<lparr>is_lote_medido := v\<rparr> else x)"
    unfolding set_lote_medido_def by auto
  show ?thesis
  proof (cases "socio_id x = i")
    case True
    with s show ?thesis by simp
  next
    case False
    with s assms(2) show ?thesis by simp
  qed
qed

lemma set_lote_medido_revert:
  assumes "distinct (map socio_id xs)"
    and "find (\<lambda>s. socio_id s = i) xs = Some orig"
  shows "set_lote_medido i (is_lote_medido orig) (set_lote_medido i v xs) = xs"
  unfolding set_lote_medido_def map_map comp_def
proof (rule map_idI)
  fix s assume s: "s \<in> set xs"
  show "(if socio_id (if socio_id s = i then s\<lparr>is_lote_medido := v\<rparr> else s) = i
         then (if socio_id s = i then s\<lparr>is_lote_medido := v\<rparr> else s)
                \<lparr>is_lote_medido := is_lote_medido orig\<rparr>
         else (if socio_id s = i then s\<lparr>is_lote_medido := v\<rparr> else s)) = s"
  proof (cases "socio_id s = i")
    case True
    have "s\<lparr>is_lote_medido := v\<rparr>\<lparr>is_lote_medido := is_lote_medido s\<rparr> = s"
      by simp
    with True find_distinct_id [OF assms s True] show ?thesis by simp
  next
    case False
    then show ?thesis by simp
  qed
qed


lemma set_lote_medido_some:
  assumes "find (\<lambda>s. socio_id s = i) xs = Some orig"
  shows "\<exists>s \<in> set (set_lote_medido i v xs). socio_id s = i"
proof -
  from assms obtain k where "k < length xs" and "xs ! k = orig" and "socio_id orig = i"
    unfolding find_Some_iff by blast
  then have "orig \<in> set xs" and "socio_id orig = i" by auto
  then have "orig\<lparr>is_lote_medido := v\<rparr> \<in> set (set_lote_medido i v xs)"
    unfolding set_lote_medido_def by force
  with \<open>socio_id orig = i\<close> show ?thesis
    by (intro bexI [of _ "orig\<lparr>is_lote_medido := v\<rparr>"]) simp_all
qed

lemma request_sent:
  assumes "isAdmin"
    and "find (\<lambda>s. socio_id s = i) (sociosConDocumentos st) = Some orig"
    and "v \<or> \<not> hasRequiredDocs orig"
  shows "handleUpdateLoteMedido_request isAdmin i v st
     = (st\<lparr> sociosConDocumentos := set_lote_medido i (Some v) (sociosConDocumentos st),
            page_events := page_events st
              @ [SetLocalLoteMedido i (Some v), UpdateLoteMedido i v] \<rparr>,
        Some orig)"
  using assms by (auto simp: handleUpdateLoteMedido_request_def page_emit_def)

lemma response_failed:
  assumes "update_error answer = Some msg"
  shows "handleUpdateLoteMedido_response orig i v answer st1
     = st1\<lparr> sociosConDocumentos :=
              set_lote_medido i (is_lote_medido orig) (sociosConDocumentos st1),
            page_events := page_events st1
              @ [ConsoleError ''Error updating lote medido:'' msg,
                 Toast toast_error ''Error al actualizar'',
                 SetLocalLoteMedido i (is_lote_medido orig)] \<rparr>"
  using assms by (simp add: handleUpdateLoteMedido_response_def page_emit_def)

lemma response_succeeded:
  assumes "update_error answer = None"
  shows "handleUpdateLoteMedido_response orig i v answer st1
     = st1\<lparr> page_events := page_events st1
              @ [Toast toast_success ''Estado de Lote Medido actualizado''] \<rparr>"
  using assms by (simp add: handleUpdateLoteMedido_response_def page_emit_def)

text \<open>
  C5, as amended. For an administrator, a socio that is in the local list and a change
  that its documents do not block: the handler first sets \<open>is_lote_medido\<close> of the socio
  to the new value in the local list, and only then sends the update; the local list at
  that moment shows the new value for the socio. The handler goes on from that state with
  the answer. If the update fails, the error is logged and shown, and every row with the
  id of the socio is set back to the value the socio had before the call, so that, the ids
  of the list being distinct, the local list is the one before the call. If the update
  succeeds, the new value stays.
\<close>

theorem optimistic_update_reverted:
  assumes "isAdmin"
    and "find (\<lambda>s. socio_id s = socioId) (sociosConDocumentos st) = Some originalData"
    and "newValue \<or> \<not> hasRequiredDocs originalData"
  shows
  "handleUpdateLoteMedido_request isAdmin socioId newValue st
     = (st\<lparr> sociosConDocumentos :=
              set_lote_medido socioId (Some newValue) (sociosConDocumentos st),
            page_events := page_events st
              @ [SetLocalLoteMedido socioId (Some newValue),
                 UpdateLoteMedido socioId newValue] \<rparr>,
        Some originalData)
   \<and> (\<exists>s \<in> set (sociosConDocumentos
          (fst (handleUpdateLoteMedido_request isAdmin socioId newValue st))).
        socio_id s = socioId)
   \<and> (\<forall>s \<in> set (sociosConDocumentos
          (fst (handleUpdateLoteMedido_request isAdmin socioId newValue st))).
        socio_id s = socioId \<longrightarrow> is_lote_medido s = Some newValue)
   \<and> handleUpdateLoteMedido isAdmin socioId newValue answer st
     = handleUpdateLoteMedido_response originalData socioId newValue answer
         (fst (handleUpdateLoteMedido_request isAdmin socioId newValue st))
   \<and> (update_error answer = Some msg \<longrightarrow>
        page_events (handleUpdateLoteMedido isAdmin socioId newValue answer st)
          = page_events st
            @ [SetLocalLoteMedido socioId (Some newValue),
               UpdateLoteMedido socioId newValue,
               ConsoleError ''Error updating lote medido:'' msg,
               Toast toast_error ''Error al actualizar'',
               SetLocalLoteMedido socioId (is_lote_medido originalData)]
        \<and> sociosConDocumentos (handleUpdateLoteMedido isAdmin socioId newValue answer st)
          = set_lote_medido socioId (is_lote_medido originalData)
              (set_lote_medido socioId (Some newValue) (sociosConDocumentos st))
        \<and> (distinct (map socio_id (sociosConDocumentos st)) \<longrightarrow>
             sociosConDocumentos (handleUpdateLoteMedido isAdmin socioId newValue answer st)
             = sociosConDocumentos st))
   \<and> (update_error answer = None \<longrightarrow>
        page_events (handleUpdateLoteMedido isAdmin socioId newValue answer st)
          = page_events st
            @ [SetLocalLoteMedido socioId (Some newValue),
               UpdateLoteMedido socioId newValue,
               Toast toast_success ''Estado de Lote Medido actualizado'']
        \<and> sociosConDocumentos (handleUpdateLoteMedido isAdmin socioId newValue answer st)
          = set_lote_medido socioId (Some newValue) (sociosConDocumentos st))"
proof -
  note sent = request_sent [OF assms]
  have some: "\<exists>s \<in> set (sociosConDocumentos
        (fst (handleUpdateLoteMedido_request isAdmin socioId newValue st))).
      socio_id s = socioId"
    using set_lote_medido_some [OF assms(2), of "Some newValue"] by (simp add: sent)
  have all: "\<forall>s \<in> set (sociosConDocumentos
        (fst (handleUpdateLoteMedido_request isAdmin socioId newValue st))).
      socio_id s = socioId \<longrightarrow> is_lote_medido s = Some newValue"
    using set_lote_medido_flag [of _ socioId "Some newValue" "sociosConDocumentos st"]
    by (simp add: sent)
  have tie: "handleUpdateLoteMedido isAdmin socioId newValue answer st
      = handleUpdateLoteMedido_response originalData socioId newValue answer
          (fst (handleUpdateLoteMedido_request isAdmin socioId newValue st))"
    by (simp add: handleUpdateLoteMedido_def sent)
  have failed: "update_error answer = Some msg \<longrightarrow>
        page_events (handleUpdateLoteMedido isAdmin socioId newValue answer st)
          = page_events st
            @ [SetLocalLoteMedido socioId (Some newValue),
               UpdateLoteMedido socioId newValue,
               ConsoleError ''Error updating lote medido:'' msg,
               Toast toast_error ''Error al actualizar'',
               SetLocalLoteMedido socioId (is_lote_medido originalData)]
        \<and> sociosConDocumentos (handleUpdateLoteMedido isAdmin socioId newValue answer st)
          = set_lote_medido socioId (is_lote_medido originalData)
              (set_lote_medido socioId (Some newValue) (sociosConDocumentos st))
        \<and> (distinct (map socio_id (sociosConDocumentos st)) \<longrightarrow>
             sociosConDocumentos (handleUpdateLoteMedido isAdmin socioId newValue answer st)
             = sociosConDocumentos st)"
  proof (intro impI conjI)
    assume err: "update_error answer = Some msg"
    show "page_events (handleUpdateLoteMedido isAdmin socioId newValue answer st)
          = page_events st
            @ [SetLocalLoteMedido socioId (Some newValue),
               UpdateLoteMedido socioId newValue,
               ConsoleError ''Error updating lote medido:'' msg,
               Toast toast_error ''Error al actualizar'',
               SetLocalLoteMedido socioId (is_lote_medido originalData)]"
      by (simp add: tie sent response_failed [OF err])
    show list: "sociosConDocumentos (handleUpdateLoteMedido isAdmin socioId newValue answer st)
          = set_lote_medido socioId (is_lote_medido originalData)
              (set_lote_medido socioId (Some newValue) (sociosConDocumentos st))"
      by (simp add: tie sent response_failed [OF err])
    assume "distinct (map socio_id (sociosConDocumentos st))"
    then have "set_lote_medido socioId (is_lote_medido originalData)
        (set_lote_medido socioId (Some newValue) (sociosConDocumentos st))
        = sociosConDocumentos st"
      using assms(2) by (rule set_lote_medido_revert)
    with list show "sociosConDocumentos
        (handleUpdateLoteMedido isAdmin socioId newValue answer st) = sociosConDocumentos st"
      by (rule trans)
  qed
  have succeeded: "update_error answer = None \<longrightarrow>
        page_events (handleUpdateLoteMedido isAdmin socioId newValue answer st)
          = page_events st
            @ [SetLocalLoteMedido socioId (Some newValue),
               UpdateLoteMedido socioId newValue,
               Toast toast_success ''Estado de Lote Medido actualizado'']
        \<and> sociosConDocumentos (handleUpdateLoteMedido isAdmin socioId newValue answer st)
          = set_lote_medido socioId (Some newValue) (sociosConDocumentos st)"
    by (simp add: tie sent response_succeeded)
  show ?thesis
    by (intro conjI) (rule sent some all tie failed succeeded)+
qed

lemmas update_eval =
  handleUpdateLoteMedido_def handleUpdateLoteMedido_request_def
  handleUpdateLoteMedido_response_def update_error_def page_emit_def set_lote_medido_def
  hasRequiredDocs_def shown_page_def shown_rows_def twin_page_def twin_rows_def

theorem optimistic_update_reverted_witness:
  "find (\<lambda>s. socio_id s = ''u2'') (sociosConDocumentos shown_page) = Some (shown_rows ! 1)
   \<and> \<not> hasRequiredDocs (shown_rows ! 1)
   \<and> update_error (Rejected ''Failed to fetch'') = Some ''Failed to fetch''
   \<and> distinct (map socio_id (sociosConDocumentos shown_page))
   \<and> map is_lote_medido (sociosConDocumentos shown_page) = [Some True, Some False]
   \<and> map is_lote_medido
        (sociosConDocumentos (fst (handleUpdateLoteMedido_request True ''u2'' True shown_page)))
       = [Some True, Some True]
   \<and> page_events (handleUpdateLoteMedido True ''u2'' True (Rejected ''Failed to fetch'')
        shown_page)
       = [SetLocalLoteMedido ''u2'' (Some True), UpdateLoteMedido ''u2'' True,
          ConsoleError ''Error updating lote medido:'' ''Failed to fetch'',
          Toast toast_error ''Error al actualizar'',
          SetLocalLoteMedido ''u2'' (Some False)]
   \<and> sociosConDocumentos
        (handleUpdateLoteMedido True ''u2'' True (Rejected ''Failed to fetch'') shown_page)
       = sociosConDocumentos shown_page"
proof -
  have f: "find (\<lambda>s. socio_id s = ''u2'') (sociosConDocumentos shown_page)
      = Some (shown_rows ! 1)"
    by (simp add: shown_page_def shown_rows_def)
  have h: "True \<or> \<not> hasRequiredDocs (shown_rows ! 1)"
    by simp
  have n: "\<not> hasRequiredDocs (shown_rows ! 1)"
    by (simp add: shown_rows_def hasRequiredDocs_def)
  have e: "update_error (Rejected ''Failed to fetch'') = Some ''Failed to fetch''"
    by (simp add: update_error_def)
  have d: "distinct (map socio_id (sociosConDocumentos shown_page))"
    by (simp add: shown_page_def shown_rows_def)
  have b: "map is_lote_medido (sociosConDocumentos shown_page) = [Some True, Some False]"
    by (simp add: shown_page_def shown_rows_def)
  have o: "map is_lote_medido (set_lote_medido ''u2'' (Some True)
      (sociosConDocumentos shown_page)) = [Some True, Some True]"
    by (simp add: shown_page_def shown_rows_def set_lote_medido_def)
  have ev: "page_events shown_page = []" "is_lote_medido (shown_rows ! 1) = Some False"
    by (simp_all add: shown_page_def shown_rows_def)
  note th = optimistic_update_reverted
    [OF TrueI f h, of "Rejected ''Failed to fetch''" "''Failed to fetch''"]
  note sent = th [THEN conjunct1]
  note failed = th [THEN conjunct2, THEN conjunct2, THEN conjunct2, THEN conjunct2,
    THEN conjunct1]
  from sent o have o': "map is_lote_medido
      (sociosConDocumentos (fst (handleUpdateLoteMedido_request True ''u2'' True shown_page)))
      = [Some True, Some True]"
    by simp
  note failed' = failed [rule_format, OF e]
  note events = failed' [THEN conjunct1]
  note reverted = failed' [THEN conjunct2, THEN conjunct2, rule_format, OF d]
  from events ev have r: "page_events (handleUpdateLoteMedido True ''u2'' True
        (Rejected ''Failed to fetch'') shown_page)
       = [SetLocalLoteMedido ''u2'' (Some True), UpdateLoteMedido ''u2'' True,
          ConsoleError ''Error updating lote medido:'' ''Failed to fetch'',
          Toast toast_error ''Error al actualizar'',
          SetLocalLoteMedido ''u2'' (Some False)]"
    by simp
  from f n e d b o' r reverted show ?thesis by simp
qed

text \<open>
  C5 as first stated fails in two ways. When two rows of the local list carry the id of the
  socio, with different values, the revert after a failed update writes the value of the
  first row to both, and the list is not the one before the call. And a caller who is not
  an administrator gets a toast; nothing is set and no update is sent.
\<close>

theorem revert_with_repeated_id:
  "map socio_id (sociosConDocumentos twin_page) = [''u2'', ''u2'']
   \<and> map is_lote_medido (sociosConDocumentos twin_page) = [Some False, Some True]
   \<and> map is_lote_medido (sociosConDocumentos
        (handleUpdateLoteMedido True ''u2'' True (Rejected ''Failed to fetch'') twin_page))
       = [Some False, Some False]
   \<and> handleUpdateLoteMedido False ''u2'' True (Rejected ''Failed to fetch'') shown_page
       = shown_page\<lparr> page_events := [Toast toast_error ''Permiso denegado''] \<rparr>"
  by (simp add: update_eval)

subsection \<open>C3: the uniqueness of the DNI at submission\<close>

lemma writes_append: "writes (xs @ ys) = writes xs @ writes ys"
  by (induction xs rule: writes.induct) simp_all

lemma written_events:
  "\<exists>after. submit_events (submit_of (handleConfirmSubmit_finally (handleConfirmSubmit_catch
       (written answer evs st)))) = submit_events st @ after
     \<and> (after = evs \<or> (\<exists>msg. after = [ConsoleError ''Error al guardar el socio:'' msg,
                                        Toast toast_error ''Error al guardar socio'']))"
  by (cases answer)
    (auto simp: written_def handleConfirmSubmit_catch_def handleConfirmSubmit_finally_def
      submit_of_def submit_emit_def split: option.splits)

text \<open>
  C3. With a submission to confirm and an answer of the uniqueness query that holds at
  least one row: when registering (no \<open>socioId\<close>) the handler ends after the duplicate
  toast, the manual error on \<open>dni\<close> and the focus, and sends neither an insert nor an
  update; when editing, if the first row is the socio being edited, the update is sent.
\<close>

theorem duplicate_dni_blocks_registration:
  assumes "dataToConfirm st = Some d"
  shows
  "(rows \<noteq> [] \<longrightarrow>
      handleConfirmSubmit None (rows_found rows) writeAnswer st
        = Done (st\<lparr> isConfirmDialogOpen := False, isConfirmingSubmission := False,
                    submit_events := submit_events st
                      @ [SelectIdsByDni (dni d), Toast toast_error ''DNI Duplicado'',
                         SetError ''dni'' ''manual'' msg_dni_registrado, SetFocus ''dni''] \<rparr>))
   \<and> (rows \<noteq> [] \<longrightarrow>
        writes (submit_events (submit_of
          (handleConfirmSubmit None (rows_found rows) writeAnswer st)))
        = writes (submit_events st))
   \<and> writes (submit_events (submit_of
        (handleConfirmSubmit (Some sid) (rows_found (sid # others)) writeAnswer st)))
      = writes (submit_events st) @ [UpdateSocio sid (dataToSave_of d)]"
proof -
  have dup: "rows \<noteq> [] \<Longrightarrow>
      handleConfirmSubmit None (rows_found rows) writeAnswer st
        = Done (st\<lparr> isConfirmDialogOpen := False, isConfirmingSubmission := False,
                    submit_events := submit_events st
                      @ [SelectIdsByDni (dni d), Toast toast_error ''DNI Duplicado'',
                         SetError ''dni'' ''manual'' msg_dni_registrado, SetFocus ''dni''] \<rparr>)"
    using assms
    by (cases rows)
      (simp_all add: handleConfirmSubmit_def handleConfirmSubmit_try_def rows_found_def
        isDuplicateDni_def Let_def submit_emit_def handleConfirmSubmit_catch_def
        handleConfirmSubmit_finally_def)
  have none: "rows \<noteq> [] \<Longrightarrow>
      writes (submit_events (submit_of
        (handleConfirmSubmit None (rows_found rows) writeAnswer st)))
      = writes (submit_events st)"
    by (simp add: dup submit_of_def writes_append)
  have edit: "writes (submit_events (submit_of
        (handleConfirmSubmit (Some sid) (rows_found (sid # others)) writeAnswer st)))
      = writes (submit_events st) @ [UpdateSocio sid (dataToSave_of d)]"
  proof -
    let ?st1 = "submit_emit [UpdateSocio sid (dataToSave_of d)]
        (submit_emit [SelectIdsByDni (dni d)] (st\<lparr> isConfirmingSubmission := True \<rparr>))"
    have run: "handleConfirmSubmit (Some sid) (rows_found (sid # others)) writeAnswer st
        = handleConfirmSubmit_finally (handleConfirmSubmit_catch
            (written writeAnswer
               [Toast toast_success ''Socio actualizado'', OnSuccess, OnClose] ?st1))"
      using assms
      by (simp add: handleConfirmSubmit_def handleConfirmSubmit_try_def rows_found_def
          isDuplicateDni_def Let_def)
    from written_events [of writeAnswer
        "[Toast toast_success ''Socio actualizado'', OnSuccess, OnClose]" ?st1]
    show ?thesis
      unfolding run by (auto simp: writes_append submit_emit_def)
  qed
  from dup none edit show ?thesis by blast
qed

theorem duplicate_dni_blocks_registration_witness:
  "dataToConfirm (confirming example_socio) = Some example_socio
   \<and> [''u9''] \<noteq> []
   \<and> writes (submit_events (submit_of
        (handleConfirmSubmit None (rows_found [''u9'']) (rows_found []) (confirming example_socio))))
      = []
   \<and> writes (submit_events (submit_of
        (handleConfirmSubmit (Some ''u1'') (rows_found [''u1'']) (rows_found [])
           (confirming example_socio))))
      = [UpdateSocio ''u1'' (dataToSave_of example_socio)]"
proof -
  have c: "dataToConfirm (confirming example_socio) = Some example_socio"
    by (simp add: confirming_def)
  have e: "writes (submit_events (confirming example_socio)) = []"
    by (simp add: confirming_def)
  from duplicate_dni_blocks_registration
    [OF c, of "[''u9'']" "rows_found []" "''u1''" "[]"] c e
  show ?thesis by (simp add: submit_of_def writes_append)
qed

subsection \<open>C6: errors are caught where they arise\<close>


lemma primary_grows: "\<exists>more. events (catch_log l (primary_try e p d s)) = events s @ more"
  by (simp add: primary_try_def catch_log_def lookup_simps split: http.split option.split)


































subsection \<open>C7: controlled and internal state of the table\<close>




end
